theory Spec2Isabelle
  imports Main "HOL-Library.Word"
begin

unbundle bit_operations_syntax

section \<open>Bytes, fatal errors and the helpers of package util\<close>

type_synonym byte = "8 word"
type_synonym bytes = "byte list"

text \<open>
  A Go panic aborts the call that raised it: no value is returned.  Every function of
  the model that can panic returns \<open>panic + 'a\<close>, with \<open>Inl\<close> for the panic.  The
  constructors name the place of the panic; the formatted message text and the log
  lines (\<open>usbLogger.Printf\<close>, \<open>u2fLogger.Printf\<close>) are not part of any returned value
  and are left out.
\<close>

datatype panic =
    InvalidPayloadLength
  | InvalidCommand
  | SliceBounds
  | AssertFailed string
  | CheckErrFailed string
  | ShortRead
  | BufferTooSmall
  | InvalidDescriptorType
  | InvalidInterfaceDescriptor
  | InvalidInterfaceRequest
  | InvalidDeviceRequest
  | InvalidRecipient
  | InvalidStringIndex

definition bindP :: "panic + 'a \<Rightarrow> ('a \<Rightarrow> panic + 'b) \<Rightarrow> panic + 'b" where
  "bindP m f = (case m of Inl e \<Rightarrow> Inl e | Inr x \<Rightarrow> f x)"

text \<open>
  Modelled from the spec: package util is not among the sources.  \<open>util.ToLE\<close> and
  \<open>util.ToBE\<close> serialise a fixed-width integer little-endian and big-endian;
  \<open>util.Flatten\<close> and \<open>util.Concat\<close> concatenate byte slices.
\<close>

definition ToLE16 :: "16 word \<Rightarrow> bytes" where
  "ToLE16 w = [ucast w, ucast (drop_bit 8 w)]"

definition ToBE16 :: "16 word \<Rightarrow> bytes" where
  "ToBE16 w = [ucast (drop_bit 8 w), ucast w]"

definition ToBE32 :: "32 word \<Rightarrow> bytes" where
  "ToBE32 w = [ucast (drop_bit 24 w), ucast (drop_bit 16 w), ucast (drop_bit 8 w), ucast w]"

text \<open>The number that a byte string is, read big-endian.\<close>

definition FromBytes :: "bytes \<Rightarrow> nat" where
  "FromBytes bs = foldl (\<lambda>a b. 256 * a + unat b) 0 bs"

definition Flatten :: "bytes list \<Rightarrow> bytes" where
  "Flatten xss = concat xss"

definition Concat :: "bytes \<Rightarrow> bytes \<Rightarrow> bytes" where
  "Concat a b = a @ b"

text \<open>
  Modelled from the spec: \<open>util.Utf16encode\<close> (absent) gives the UTF-16LE bytes of a
  string; the string table holds ASCII only, so every character is its code followed
  by a zero byte.
\<close>

definition Utf16encode :: "string \<Rightarrow> bytes" where
  "Utf16encode s = concat (map (\<lambda>c. [of_char c, 0]) s)"

section \<open>The USB device (usb/usb\_device.go)\<close>

subsection \<open>Constants and struct layouts that the file uses and does not declare\<close>

text \<open>
  Modelled from the spec: the descriptor-type tags (type \<open>usbDescriptorType\<close>, a
  \<open>uint8\<close>) with the byte codes 1, 2, 3, 4, 5, 0x21, 0x22 of section 3.
\<close>

definition usbDescriptorDevice :: byte where "usbDescriptorDevice = 1"
definition usbDescriptorConfiguration :: byte where "usbDescriptorConfiguration = 2"
definition usbDescriptorString :: byte where "usbDescriptorString = 3"
definition usbDescriptorInterface :: byte where "usbDescriptorInterface = 4"
definition usbDescriptorEndpoint :: byte where "usbDescriptorEndpoint = 5"
definition usbDescriptorHID :: byte where "usbDescriptorHID = 0x21"
definition usbDescriptorHIDReport :: byte where "usbDescriptorHIDReport = 0x22"

text \<open>
  Modelled from the spec: interface class HID is 3 and the language ID of string 0 is
  0x0409.
\<close>

definition usbInterfaceClassHID :: byte where "usbInterfaceClassHID = 3"
definition usbLangIDEngUSA :: "16 word" where "usbLangIDEngUSA = 0x0409"

text \<open>
  The request codes, the recipient codes and the two configuration attribute bits are
  declared in a file that is not among the sources and the spec does not give their
  values: they are parameters.  The cases of a Go \<open>switch\<close> over constants are
  pairwise distinct (the compiler rejects duplicates); the model tries them in the
  order of the source.
\<close>

record usbCodes =
  usbRequestGetStatus :: byte
  usbRequestGetDescriptor :: byte
  usbRequestSetConfiguration :: byte
  usbHIDRequestSetIdle :: byte
  usbHIDRequestSetProtocol :: byte
  usbHIDRequestGetDescriptor :: byte
  usbRequestRecipientDevice :: byte
  usbRequestRecipientInterface :: byte
  usbConfigAttributeBase :: byte
  usbConfigAttributeSelfPowered :: byte

text \<open>
  Modelled from the spec: the descriptor structs.  Their declarations are absent; the
  fields are those of the struct literals in the source, in that order, with the widths
  that give the sizes of section 3 (18, 9, 9, 9 and 7 bytes).  \<open>util.SizeOf\<close> is the
  packed size of the struct and \<open>util.ToLE\<close> writes the fields in order,
  little-endian.
\<close>

record usbSetupPacket =
  BmRequestType :: byte
  BRequest :: byte
  WValue :: "16 word"
  WIndex :: "16 word"
  WLength :: "16 word"

record usbDeviceDescriptor =
  dev_BLength :: byte
  dev_BDescriptorType :: byte
  dev_BcdUSB :: "16 word"
  dev_BDeviceClass :: byte
  dev_BDeviceSubclass :: byte
  dev_BDeviceProtocol :: byte
  dev_BMaxPacketSize :: byte
  dev_IDVendor :: "16 word"
  dev_IDProduct :: "16 word"
  dev_BcdDevice :: "16 word"
  dev_IManufacturer :: byte
  dev_IProduct :: byte
  dev_ISerialNumber :: byte
  dev_BNumConfigurations :: byte

record usbConfigurationDescriptor =
  cfg_BLength :: byte
  cfg_BDescriptorType :: byte
  cfg_WTotalLength :: "16 word"
  cfg_BNumInterfaces :: byte
  cfg_BConfigurationValue :: byte
  cfg_IConfiguration :: byte
  cfg_BmAttributes :: byte
  cfg_BMaxPower :: byte

record usbInterfaceDescriptor =
  ifc_BLength :: byte
  ifc_BDescriptorType :: byte
  ifc_BInterfaceNumber :: byte
  ifc_BAlternateSetting :: byte
  ifc_BNumEndpoints :: byte
  ifc_BInterfaceClass :: byte
  ifc_BInterfaceSubclass :: byte
  ifc_BInterfaceProtocol :: byte
  ifc_IInterface :: byte

record usbHIDDescriptor =
  hid_BLength :: byte
  hid_BDescriptorType :: byte
  hid_BcdHID :: "16 word"
  hid_BCountryCode :: byte
  hid_BNumDescriptors :: byte
  hid_BClassDescriptorType :: byte
  hid_WReportDescriptorLength :: "16 word"

record usbEndpointDescriptor =
  ep_BLength :: byte
  ep_BDescriptorType :: byte
  ep_BEndpointAddress :: byte
  ep_BmAttributes :: byte
  ep_WMaxPacketSize :: "16 word"
  ep_BInterval :: byte

record usbStringDescriptorHeader =
  str_BLength :: byte
  str_BDescriptorType :: byte

definition SizeOf_usbDeviceDescriptor :: byte where "SizeOf_usbDeviceDescriptor = 18"
definition SizeOf_usbConfigurationDescriptor :: byte where "SizeOf_usbConfigurationDescriptor = 9"
definition SizeOf_usbInterfaceDescriptor :: byte where "SizeOf_usbInterfaceDescriptor = 9"
definition SizeOf_usbHIDDescriptor :: byte where "SizeOf_usbHIDDescriptor = 9"
definition SizeOf_usbEndpointDescriptor :: byte where "SizeOf_usbEndpointDescriptor = 7"
definition SizeOf_usbStringDescriptorHeader :: byte where "SizeOf_usbStringDescriptorHeader = 2"

definition ToLE_usbDeviceDescriptor :: "usbDeviceDescriptor \<Rightarrow> bytes" where
  "ToLE_usbDeviceDescriptor d =
     [dev_BLength d, dev_BDescriptorType d] @ ToLE16 (dev_BcdUSB d) @
     [dev_BDeviceClass d, dev_BDeviceSubclass d, dev_BDeviceProtocol d, dev_BMaxPacketSize d] @
     ToLE16 (dev_IDVendor d) @ ToLE16 (dev_IDProduct d) @ ToLE16 (dev_BcdDevice d) @
     [dev_IManufacturer d, dev_IProduct d, dev_ISerialNumber d, dev_BNumConfigurations d]"

definition ToLE_usbConfigurationDescriptor :: "usbConfigurationDescriptor \<Rightarrow> bytes" where
  "ToLE_usbConfigurationDescriptor d =
     [cfg_BLength d, cfg_BDescriptorType d] @ ToLE16 (cfg_WTotalLength d) @
     [cfg_BNumInterfaces d, cfg_BConfigurationValue d, cfg_IConfiguration d,
      cfg_BmAttributes d, cfg_BMaxPower d]"

definition ToLE_usbInterfaceDescriptor :: "usbInterfaceDescriptor \<Rightarrow> bytes" where
  "ToLE_usbInterfaceDescriptor d =
     [ifc_BLength d, ifc_BDescriptorType d, ifc_BInterfaceNumber d, ifc_BAlternateSetting d,
      ifc_BNumEndpoints d, ifc_BInterfaceClass d, ifc_BInterfaceSubclass d,
      ifc_BInterfaceProtocol d, ifc_IInterface d]"

definition ToLE_usbHIDDescriptor :: "usbHIDDescriptor \<Rightarrow> bytes" where
  "ToLE_usbHIDDescriptor d =
     [hid_BLength d, hid_BDescriptorType d] @ ToLE16 (hid_BcdHID d) @
     [hid_BCountryCode d, hid_BNumDescriptors d, hid_BClassDescriptorType d] @
     ToLE16 (hid_WReportDescriptorLength d)"

definition ToLE_usbEndpointDescriptor :: "usbEndpointDescriptor \<Rightarrow> bytes" where
  "ToLE_usbEndpointDescriptor d =
     [ep_BLength d, ep_BDescriptorType d, ep_BEndpointAddress d, ep_BmAttributes d] @
     ToLE16 (ep_WMaxPacketSize d) @ [ep_BInterval d]"

definition ToLE_usbStringDescriptorHeader :: "usbStringDescriptorHeader \<Rightarrow> bytes" where
  "ToLE_usbStringDescriptorHeader h = [str_BLength h, str_BDescriptorType h]"

text \<open>
  Modelled from the spec: \<open>getDescriptorTypeAndIndex\<close> (absent) splits \<open>wValue\<close> as
  type = high byte, index = low byte; \<open>recipient()\<close> (absent) is
  \<open>bmRequestType & 0x1F\<close>.
\<close>

definition getDescriptorTypeAndIndex :: "16 word \<Rightarrow> byte \<times> byte" where
  "getDescriptorTypeAndIndex wValue = (ucast (drop_bit 8 wValue), ucast wValue)"

definition recipient :: "usbSetupPacket \<Rightarrow> byte" where
  "recipient setup = BmRequestType setup AND 0x1F"

subsection \<open>The descriptor tables\<close>

definition getDeviceDescriptor :: usbDeviceDescriptor where
  "getDeviceDescriptor =
     \<lparr> dev_BLength = SizeOf_usbDeviceDescriptor,
       dev_BDescriptorType = usbDescriptorDevice,
       dev_BcdUSB = 0x0110,
       dev_BDeviceClass = 0,
       dev_BDeviceSubclass = 0,
       dev_BDeviceProtocol = 0,
       dev_BMaxPacketSize = 64,
       dev_IDVendor = 0,
       dev_IDProduct = 0,
       dev_BcdDevice = 0x1,
       dev_IManufacturer = 1,
       dev_IProduct = 2,
       dev_ISerialNumber = 3,
       dev_BNumConfigurations = 1 \<rparr>"

definition getConfigurationDescriptor :: "usbCodes \<Rightarrow> 16 word \<Rightarrow> usbConfigurationDescriptor" where
  "getConfigurationDescriptor c configLength =
     (let totalLength = ucast SizeOf_usbConfigurationDescriptor + configLength in
      \<lparr> cfg_BLength = SizeOf_usbConfigurationDescriptor,
        cfg_BDescriptorType = usbDescriptorConfiguration,
        cfg_WTotalLength = totalLength,
        cfg_BNumInterfaces = 1,
        cfg_BConfigurationValue = 0,
        cfg_IConfiguration = 4,
        cfg_BmAttributes = usbConfigAttributeBase c OR usbConfigAttributeSelfPowered c,
        cfg_BMaxPower = 0 \<rparr>)"

definition getInterfaceDescriptor :: usbInterfaceDescriptor where
  "getInterfaceDescriptor =
     \<lparr> ifc_BLength = SizeOf_usbInterfaceDescriptor,
       ifc_BDescriptorType = usbDescriptorInterface,
       ifc_BInterfaceNumber = 0,
       ifc_BAlternateSetting = 0,
       ifc_BNumEndpoints = 2,
       ifc_BInterfaceClass = usbInterfaceClassHID,
       ifc_BInterfaceSubclass = 0,
       ifc_BInterfaceProtocol = 0,
       ifc_IInterface = 5 \<rparr>"

definition getHIDDescriptor :: "bytes \<Rightarrow> usbHIDDescriptor" where
  "getHIDDescriptor hidReportDescriptor =
     \<lparr> hid_BLength = SizeOf_usbHIDDescriptor,
       hid_BDescriptorType = usbDescriptorHID,
       hid_BcdHID = 0x0101,
       hid_BCountryCode = 0,
       hid_BNumDescriptors = 1,
       hid_BClassDescriptorType = usbDescriptorHIDReport,
       hid_WReportDescriptorLength = of_nat (length hidReportDescriptor) \<rparr>"

definition getHIDReport :: bytes where
  "getHIDReport =
     [6, 208, 241, 9, 1, 161, 1, 9, 32, 20, 37, 255, 117, 8, 149, 64, 129, 2,
      9, 33, 20, 37, 255, 117, 8, 149, 64, 145, 2, 192]"

definition getEndpointDescriptors :: "usbEndpointDescriptor list" where
  "getEndpointDescriptors =
     (let length = SizeOf_usbEndpointDescriptor in
      [ \<lparr> ep_BLength = length,
          ep_BDescriptorType = usbDescriptorEndpoint,
          ep_BEndpointAddress = 0b10000001,
          ep_BmAttributes = 0b00000011,
          ep_WMaxPacketSize = 64,
          ep_BInterval = 255 \<rparr>,
        \<lparr> ep_BLength = length,
          ep_BDescriptorType = usbDescriptorEndpoint,
          ep_BEndpointAddress = 0b00000010,
          ep_BmAttributes = 0b00000011,
          ep_WMaxPacketSize = 64,
          ep_BInterval = 255 \<rparr> ])"

definition getStringDescriptor :: "byte \<Rightarrow> panic + bytes" where
  "getStringDescriptor index =
     (if index = 0 then Inr (ToLE16 usbLangIDEngUSA)
      else if index = 1 then Inr (Utf16encode ''No Company'')
      else if index = 2 then Inr (Utf16encode ''Virtual FIDO'')
      else if index = 3 then Inr (Utf16encode ''No Serial Number'')
      else if index = 4 then Inr (Utf16encode ''String 4'')
      else if index = 5 then Inr (Utf16encode ''Default Interface'')
      else Inl InvalidStringIndex)"

subsection \<open>Control requests\<close>

text \<open>
  \<open>getDescriptor\<close>: the loop over the endpoint descriptors appends each one to the
  buffer, which is \<open>concat (map \<dots>)\<close>; \<open>uint16(len(configBytes))\<close> and
  \<open>uint8(len(message))\<close> truncate, as \<open>of_nat\<close> into a word does.
\<close>

definition getDescriptor :: "usbCodes \<Rightarrow> byte \<Rightarrow> byte \<Rightarrow> panic + bytes" where
  "getDescriptor c descriptorType index =
     (if descriptorType = usbDescriptorDevice then
        Inr (ToLE_usbDeviceDescriptor getDeviceDescriptor)
      else if descriptorType = usbDescriptorConfiguration then
        (let interfaceDescriptor = getInterfaceDescriptor;
             hid = getHIDDescriptor getHIDReport;
             endpoints = getEndpointDescriptors;
             configBytes = ToLE_usbInterfaceDescriptor interfaceDescriptor @
                           ToLE_usbHIDDescriptor hid @
                           concat (map ToLE_usbEndpointDescriptor endpoints);
             config = getConfigurationDescriptor c (of_nat (length configBytes))
         in Inr (Concat (ToLE_usbConfigurationDescriptor config) configBytes))
      else if descriptorType = usbDescriptorString then
        bindP (getStringDescriptor index) (\<lambda>message.
          let header = \<lparr> str_BLength = 0, str_BDescriptorType = usbDescriptorString \<rparr>;
              header = header \<lparr> str_BLength :=
                         SizeOf_usbStringDescriptorHeader + of_nat (length message) \<rparr>
          in Inr (Concat (ToLE_usbStringDescriptorHeader header) message))
      else Inl InvalidDescriptorType)"

text \<open>A \<open>nil\<close> reply (nothing is copied into the transfer buffer) is \<open>None\<close>.\<close>

definition handleDeviceRequest :: "usbCodes \<Rightarrow> usbSetupPacket \<Rightarrow> panic + bytes option" where
  "handleDeviceRequest c setup =
     (if BRequest setup = usbRequestGetDescriptor c then
        (let (descriptorType, descriptorIndex) = getDescriptorTypeAndIndex (WValue setup)
         in bindP (getDescriptor c descriptorType descriptorIndex) (\<lambda>r. Inr (Some r)))
      else if BRequest setup = usbRequestSetConfiguration c then Inr None
      else if BRequest setup = usbRequestGetStatus c then Inr (Some [1])
      else Inl InvalidDeviceRequest)"

definition handleInterfaceRequest :: "usbCodes \<Rightarrow> usbSetupPacket \<Rightarrow> panic + bytes option" where
  "handleInterfaceRequest c setup =
     (if BRequest setup = usbHIDRequestSetIdle c then Inr None
      else if BRequest setup = usbHIDRequestSetProtocol c then Inr None
      else if BRequest setup = usbHIDRequestGetDescriptor c then
        (let (descriptorType, descriptorIndex) = getDescriptorTypeAndIndex (WValue setup)
         in if descriptorType = usbDescriptorHIDReport then Inr (Some getHIDReport)
            else Inl InvalidInterfaceDescriptor)
      else Inl InvalidInterfaceRequest)"

definition handleControlMessage :: "usbCodes \<Rightarrow> usbSetupPacket \<Rightarrow> panic + bytes option" where
  "handleControlMessage c setup =
     (if recipient setup = usbRequestRecipientDevice c then handleDeviceRequest c setup
      else if recipient setup = usbRequestRecipientInterface c then handleInterfaceRequest c setup
      else Inl InvalidRecipient)"

section \<open>The U2F application (virtual\_fido/u2f.go)\<close>

subsection \<open>Constants and the message header\<close>

definition u2f_COMMAND_REGISTER :: byte where "u2f_COMMAND_REGISTER = 0x01"
definition u2f_COMMAND_AUTHENTICATE :: byte where "u2f_COMMAND_AUTHENTICATE = 0x02"
definition u2f_COMMAND_VERSION :: byte where "u2f_COMMAND_VERSION = 0x03"

definition u2f_SW_NO_ERROR :: "16 word" where "u2f_SW_NO_ERROR = 0x9000"
definition u2f_SW_CONDITIONS_NOT_SATISFIED :: "16 word" where
  "u2f_SW_CONDITIONS_NOT_SATISFIED = 0x6985"
definition u2f_SW_WRONG_DATA :: "16 word" where "u2f_SW_WRONG_DATA = 0x6A80"
definition u2f_SW_WRONG_LENGTH :: "16 word" where "u2f_SW_WRONG_LENGTH = 0x6700"
definition u2f_SW_CLA_NOT_SUPPORTED :: "16 word" where "u2f_SW_CLA_NOT_SUPPORTED = 0x6E00"
definition u2f_SW_INS_NOT_SUPPORTED :: "16 word" where "u2f_SW_INS_NOT_SUPPORTED = 0x6D00"

definition u2f_AUTH_CONTROL_CHECK_ONLY :: byte where "u2f_AUTH_CONTROL_CHECK_ONLY = 0x07"
definition u2f_AUTH_CONTROL_ENFORCE_USER_PRESENCE_AND_SIGN :: byte where
  "u2f_AUTH_CONTROL_ENFORCE_USER_PRESENCE_AND_SIGN = 0x03"
definition u2f_AUTH_CONTROL_SIGN :: byte where "u2f_AUTH_CONTROL_SIGN = 0x08"

record u2fMessageHeader =
  Cla :: byte
  Command :: byte
  Param1 :: byte
  Param2 :: byte

subsection \<open>Reading from a byte buffer\<close>

text \<open>
  A \<open>bytes.Buffer\<close> is the list of the bytes not read yet; a read returns the bytes
  read and the rest.  \<open>buffer.Len() == 0\<close> is \<open>buffer = []\<close>.

  Modelled from the spec: \<open>util.Read\<close>, \<open>util.ReadBE\<close> and \<open>util.ReadLE\<close> are absent.
  The spec's decoding rules read a 4-byte header, one byte, a big-endian 16-bit length
  and that many request bytes.  A read of more bytes than the buffer holds is a decode
  failure, modelled as the panic \<open>ShortRead\<close>.
\<close>

definition util_Read :: "bytes \<Rightarrow> nat \<Rightarrow> panic + (bytes \<times> bytes)" where
  "util_Read buffer n =
     (if length buffer < n then Inl ShortRead else Inr (take n buffer, drop n buffer))"

definition ReadBE_uint16 :: "bytes \<Rightarrow> panic + (16 word \<times> bytes)" where
  "ReadBE_uint16 buffer =
     (case buffer of
        hi # lo # rest \<Rightarrow> Inr (push_bit 8 (ucast hi) OR ucast lo, rest)
      | _ \<Rightarrow> Inl ShortRead)"

definition ReadLE_uint8 :: "bytes \<Rightarrow> panic + (byte \<times> bytes)" where
  "ReadLE_uint8 buffer = (case buffer of b # rest \<Rightarrow> Inr (b, rest) | [] \<Rightarrow> Inl ShortRead)"

definition ReadBE_u2fMessageHeader :: "bytes \<Rightarrow> panic + (u2fMessageHeader \<times> bytes)" where
  "ReadBE_u2fMessageHeader buffer =
     (case buffer of
        cla # ins # p1 # p2 # rest \<Rightarrow>
          Inr (\<lparr> Cla = cla, Command = ins, Param1 = p1, Param2 = p2 \<rparr>, rest)
      | _ \<Rightarrow> Inl ShortRead)"

subsection \<open>decodeU2FMessage\<close>

definition decodeU2FMessage :: "bytes \<Rightarrow> panic + (u2fMessageHeader \<times> bytes \<times> 16 word)" where
  "decodeU2FMessage messageBytes =
     bindP (ReadBE_u2fMessageHeader messageBytes) (\<lambda>(header, buffer).
       if buffer = [] then Inr (header, [], 0)
       else bindP (util_Read buffer 1) (\<lambda>(marker, buffer).
         if hd marker \<noteq> 0 then Inl InvalidPayloadLength
         else bindP (ReadBE_uint16 buffer) (\<lambda>(len, buffer).
           if buffer = [] then Inr (header, [], len)
           else bindP (util_Read buffer (unat len)) (\<lambda>(request, buffer).
             if buffer = [] then Inr (header, request, 0)
             else bindP (ReadBE_uint16 buffer) (\<lambda>(responseLength, buffer).
               Inr (header, request, responseLength))))))"

subsection \<open>The client port and the libraries\<close>

text \<open>
  \<open>KeyHandle\<close>: a Go \<open>[]byte\<close> is \<open>nil\<close> or a byte string, and the source tells the
  two apart (\<open>keyHandle.PrivateKey == nil\<close>): the fields are \<open>bytes option\<close>, with
  \<open>None\<close> for \<open>nil\<close>.  \<open>bytes.Compare\<close> reads \<open>nil\<close> as the empty string.
\<close>

record KeyHandle =
  PrivateKey :: "bytes option"
  ApplicationID :: "bytes option"

definition bytes_of :: "bytes option \<Rightarrow> bytes" where
  "bytes_of b = (case b of None \<Rightarrow> [] | Some x \<Rightarrow> x)"

text \<open>
  An \<open>*ecdsa.PrivateKey\<close> on P-256: the secret scalar and the two coordinates of the
  public point (\<open>big.Int\<close> values, never negative here).
\<close>

record ecdsa_PrivateKey =
  ecdsa_D :: nat
  PublicKey_X :: nat
  PublicKey_Y :: nat

text \<open>
  The interface \<open>FIDOClient\<close> is declared outside the sources; its methods are the ones
  the source calls.  What the client does (user approval, key generation, the counter)
  is outside the program: each method is a parameter, a function of the state \<open>'w\<close> of
  the world that returns its result and the new state.  The counter is a \<open>uint32\<close>
  (the source serialises it with \<open>util.ToBE\<close>; the spec gives its width).
\<close>

record 'w FIDOClient =
  SealingEncryptionKey :: "'w \<Rightarrow> bytes"
  NewPrivateKey :: "'w \<Rightarrow> ecdsa_PrivateKey \<times> 'w"
  ApproveU2FRegistration :: "KeyHandle \<Rightarrow> 'w \<Rightarrow> bool \<times> 'w"
  CreateAttestationCertificiate :: "ecdsa_PrivateKey \<Rightarrow> 'w \<Rightarrow> bytes \<times> 'w"
  ApproveU2FAuthentication :: "KeyHandle \<Rightarrow> 'w \<Rightarrow> bool \<times> 'w"
  NewAuthenticationCounterId :: "'w \<Rightarrow> 32 word \<times> 'w"

text \<open>
  The functions \<open>seal\<close>, \<open>open\<close> and \<open>sign\<close> (this repository, not among the
  sources), \<open>util.MarshalCBOR\<close> and \<open>cbor.Unmarshal\<close> at the two types they are used
  at, and the two \<open>x509\<close> functions are parameters as well.  The type \<open>encryptedBox\<close>
  is the type variable \<open>'box\<close>.
  \<^item> \<open>seal\<close> and \<open>sign\<close> draw randomness: they take and return the state of the world.
  \<^item> \<open>open\<close> returns a single \<open>[]byte\<close> at its call site and no \<open>error\<close>: a call
    either returns bytes (\<open>Inr\<close>) or does not return (\<open>Inl\<close>, a panic).
  \<^item> A function that returns \<open>(value, error)\<close> gives \<open>None\<close> for a non-nil error.
\<close>

record ('w, 'box) crypto =
  seal :: "bytes \<Rightarrow> bytes \<Rightarrow> 'w \<Rightarrow> 'box \<times> 'w"
  open_box :: "bytes \<Rightarrow> 'box \<Rightarrow> panic + bytes"
  sign :: "ecdsa_PrivateKey \<Rightarrow> bytes \<Rightarrow> 'w \<Rightarrow> bytes \<times> 'w"
  MarshalCBOR_KeyHandle :: "KeyHandle \<Rightarrow> bytes"
  Unmarshal_KeyHandle :: "bytes \<Rightarrow> KeyHandle option"
  MarshalCBOR_encryptedBox :: "'box \<Rightarrow> bytes"
  Unmarshal_encryptedBox :: "bytes \<Rightarrow> 'box option"
  x509_MarshalECPrivateKey :: "ecdsa_PrivateKey \<Rightarrow> bytes option"
  x509_ParseECPrivateKey :: "bytes \<Rightarrow> ecdsa_PrivateKey option"

text \<open>
  Modelled from the spec: \<open>elliptic.Marshal\<close> on P-256 gives the SEC1 uncompressed
  point, \<open>0x04\<close> followed by X and Y as 32 big-endian bytes each (\<open>FillBytes\<close>, which
  panics when the value does not fit).
\<close>

fun FillBytes :: "nat \<Rightarrow> nat \<Rightarrow> bytes" where
  "FillBytes 0 x = []"
| "FillBytes (Suc n) x = FillBytes n (x div 256) @ [of_nat x]"

definition elliptic_Marshal :: "nat \<Rightarrow> nat \<Rightarrow> panic + bytes" where
  "elliptic_Marshal x y =
     (if x < 2 ^ 256 \<and> y < 2 ^ 256 then Inr ([4] @ FillBytes 32 x @ FillBytes 32 y)
      else Inl BufferTooSmall)"

subsection \<open>Key handles\<close>

definition sealKeyHandle ::
  "('w, 'box) crypto \<Rightarrow> 'w FIDOClient \<Rightarrow> KeyHandle \<Rightarrow> 'w \<Rightarrow> bytes \<times> 'w" where
  "sealKeyHandle lib client keyHandle w =
     (let (box, w1) = seal lib (SealingEncryptionKey client w)
                        (MarshalCBOR_KeyHandle lib keyHandle) w
      in (MarshalCBOR_encryptedBox lib box, w1))"

text \<open>
  \<open>openKeyHandle\<close> returns \<open>(nil, err)\<close> (here \<open>Inr None\<close>) exactly when one of the two
  \<open>cbor.Unmarshal\<close> calls fails.  It has no branch for a failure of \<open>open\<close>.
\<close>

definition openKeyHandle ::
  "('w, 'box) crypto \<Rightarrow> 'w FIDOClient \<Rightarrow> bytes \<Rightarrow> 'w \<Rightarrow> panic + KeyHandle option" where
  "openKeyHandle lib client boxBytes w =
     (case Unmarshal_encryptedBox lib boxBytes of
        None \<Rightarrow> Inr None
      | Some box \<Rightarrow>
          bindP (open_box lib (SealingEncryptionKey client w) box) (\<lambda>data.
            case Unmarshal_KeyHandle lib data of
              None \<Rightarrow> Inr None
            | Some keyHandle \<Rightarrow> Inr (Some keyHandle)))"


subsection \<open>REGISTER\<close>

text \<open>
  \<open>request[:32]\<close> and \<open>request[32:]\<close>: with fewer than 32 bytes the second slice
  expression is out of range (the first one already is, unless the slice has spare
  capacity), a run-time panic.  \<open>util.Assert\<close> (absent) panics when its condition is
  false; \<open>util.CheckErr\<close> (absent) panics when the error is not nil.
  \<open>uint8(len(keyHandle))\<close> keeps the low 8 bits of the length.
\<close>

definition handleU2FRegister ::
  "('w, 'box) crypto \<Rightarrow> 'w FIDOClient \<Rightarrow> u2fMessageHeader \<Rightarrow> bytes \<Rightarrow> 'w
     \<Rightarrow> panic + (bytes \<times> 'w)" where
  "handleU2FRegister lib client header request w =
     (if length request < 32 then Inl SliceBounds
      else
        let challenge = take 32 request;
            application = drop 32 request
        in if length challenge \<noteq> 32 then Inl (AssertFailed ''Challenge is not 32 bytes'')
        else if length application \<noteq> 32 then Inl (AssertFailed ''Application is not 32 bytes'')
        else
          let (privateKey, w1) = NewPrivateKey client w
          in bindP (elliptic_Marshal (PublicKey_X privateKey) (PublicKey_Y privateKey))
               (\<lambda>encodedPublicKey.
          case x509_MarshalECPrivateKey lib privateKey of
            None \<Rightarrow> Inl (CheckErrFailed ''Could not encode private key'')
          | Some encodedPrivateKey \<Rightarrow>
              let unencryptedKeyHandle =
                    \<lparr> PrivateKey = Some encodedPrivateKey, ApplicationID = Some application \<rparr>;
                  (keyHandle, w2) = sealKeyHandle lib client unencryptedKeyHandle w1;
                  (approved, w3) = ApproveU2FRegistration client unencryptedKeyHandle w2
              in if \<not> approved then Inr (ToBE16 u2f_SW_CONDITIONS_NOT_SATISFIED, w3)
              else
                let (cert, w4) = CreateAttestationCertificiate client privateKey w3;
                    signatureDataBytes =
                      Flatten [[0], application, challenge, keyHandle, encodedPublicKey];
                    (signature, w5) = sign lib privateKey signatureDataBytes w4
                in Inr (Flatten [[0x05], encodedPublicKey, [of_nat (length keyHandle)],
                                 keyHandle, cert, signature, ToBE16 u2f_SW_NO_ERROR], w5)))"

subsection \<open>AUTHENTICATE\<close>

definition handleU2FAuthenticate ::
  "('w, 'box) crypto \<Rightarrow> 'w FIDOClient \<Rightarrow> u2fMessageHeader \<Rightarrow> bytes \<Rightarrow> 'w
     \<Rightarrow> panic + (bytes \<times> 'w)" where
  "handleU2FAuthenticate lib client header request w =
     (let control = Param1 header in
      bindP (util_Read request 32) (\<lambda>(challenge, requestReader).
      bindP (util_Read requestReader 32) (\<lambda>(application, requestReader).
      bindP (ReadLE_uint8 requestReader) (\<lambda>(keyHandleLength, requestReader).
      bindP (util_Read requestReader (unat keyHandleLength))
        (\<lambda>(encryptedKeyHandleBytes, requestReader).
      bindP (openKeyHandle lib client encryptedKeyHandleBytes w) (\<lambda>opened.
        case opened of
          None \<Rightarrow> Inr (ToBE16 u2f_SW_WRONG_DATA, w)
        | Some keyHandle \<Rightarrow>
            if PrivateKey keyHandle = None \<or> bytes_of (ApplicationID keyHandle) \<noteq> application
            then Inr (ToBE16 u2f_SW_WRONG_DATA, w)
            else
              (case x509_ParseECPrivateKey lib (bytes_of (PrivateKey keyHandle)) of
                 None \<Rightarrow> Inl (CheckErrFailed ''Could not decode private key'')
               | Some privateKey \<Rightarrow>
                   if control = u2f_AUTH_CONTROL_CHECK_ONLY
                   then Inr (ToBE16 u2f_SW_CONDITIONS_NOT_SATISFIED, w)
                   else if control = u2f_AUTH_CONTROL_ENFORCE_USER_PRESENCE_AND_SIGN
                           \<or> control = u2f_AUTH_CONTROL_SIGN
                   then
                     let (approved, w1) =
                           (if control = u2f_AUTH_CONTROL_ENFORCE_USER_PRESENCE_AND_SIGN
                            then ApproveU2FAuthentication client keyHandle w
                            else (True, w))
                     in if \<not> approved then Inr (ToBE16 u2f_SW_CONDITIONS_NOT_SATISFIED, w1)
                     else
                       let (counter, w2) = NewAuthenticationCounterId client w1;
                           signatureDataBytes =
                             Flatten [application, [1], ToBE32 counter, challenge];
                           (signature, w3) = sign lib privateKey signatureDataBytes w2
                       in Inr (Flatten [[1], ToBE32 counter, signature,
                                        ToBE16 u2f_SW_NO_ERROR], w3)
                   else Inr (ToBE16 u2f_SW_WRONG_LENGTH, w))))))))"

subsection \<open>handleU2FMessage\<close>

definition handleU2FMessage ::
  "('w, 'box) crypto \<Rightarrow> 'w FIDOClient \<Rightarrow> bytes \<Rightarrow> 'w \<Rightarrow> panic + (bytes \<times> 'w)" where
  "handleU2FMessage lib client message w =
     bindP (decodeU2FMessage message) (\<lambda>(header, request, responseLength).
       if Command header = u2f_COMMAND_VERSION
       then Inr (map of_char ''U2F_V2'' @ ToBE16 u2f_SW_NO_ERROR, w)
       else if Command header = u2f_COMMAND_REGISTER
       then handleU2FRegister lib client header request w
       else if Command header = u2f_COMMAND_AUTHENTICATE
       then handleU2FAuthenticate lib client header request w
       else Inl InvalidCommand)"

section \<open>A reference environment\<close>

text \<open>
  The theorems of this file hold for every client, every library and every table of
  request codes.  Their witnesses and the counterexamples need one concrete instance of
  these parameters, given here.  It stands for the collaborators of the program and is
  not code of the program: the request codes of USB 2.0 and HID 1.11; the CBOR
  encoding (RFC 8949, definite lengths) of a struct of two byte strings under the
  integer keys 1 and 2, which is what the struct tags of \<open>KeyHandle\<close> ask for, with a
  decoder for exactly that shape; a toy authenticated cipher whose \<open>open\<close> returns
  no bytes when the tag does not match; a toy signature; a client that holds a counter and a fixed
  answer of the user.
\<close>

definition usb_codes :: usbCodes where
  "usb_codes =
     \<lparr> usbRequestGetStatus = 0,
       usbRequestGetDescriptor = 6,
       usbRequestSetConfiguration = 9,
       usbHIDRequestSetIdle = 0x0A,
       usbHIDRequestSetProtocol = 0x0B,
       usbHIDRequestGetDescriptor = 6,
       usbRequestRecipientDevice = 0,
       usbRequestRecipientInterface = 1,
       usbConfigAttributeBase = 0x80,
       usbConfigAttributeSelfPowered = 0x40 \<rparr>"

definition cbor_head :: "nat \<Rightarrow> nat \<Rightarrow> bytes" where
  "cbor_head major n =
     (if n < 24 then [of_nat (32 * major + n)]
      else if n < 2 ^ 8 then of_nat (32 * major + 24) # FillBytes 1 n
      else if n < 2 ^ 16 then of_nat (32 * major + 25) # FillBytes 2 n
      else if n < 2 ^ 32 then of_nat (32 * major + 26) # FillBytes 4 n
      else of_nat (32 * major + 27) # FillBytes 8 n)"

definition cbor_read_head :: "bytes \<Rightarrow> (nat \<times> nat \<times> bytes) option" where
  "cbor_read_head bs =
     (case bs of
        [] \<Rightarrow> None
      | b # rest \<Rightarrow>
          let major = unat b div 32; info = unat b mod 32
          in if info < 24 then Some (major, info, rest)
             else if info \<le> 27 then
               (let k = 2 ^ (info - 24)
                in if length rest < k then None
                   else Some (major, FromBytes (take k rest), drop k rest))
             else None)"

definition cbor_bytes :: "bytes option \<Rightarrow> bytes" where
  "cbor_bytes f = (case f of None \<Rightarrow> [0xF6] | Some b \<Rightarrow> cbor_head 2 (length b) @ b)"

definition cbor_read_bytes :: "bytes \<Rightarrow> (bytes option \<times> bytes) option" where
  "cbor_read_bytes bs =
     (if bs \<noteq> [] \<and> hd bs = 0xF6 then Some (None, tl bs)
      else case cbor_read_head bs of
             None \<Rightarrow> None
           | Some (major, n, rest) \<Rightarrow>
               if major = 2 \<and> n \<le> length rest then Some (Some (take n rest), drop n rest)
               else None)"

definition cbor_marshal_fields :: "bytes option \<Rightarrow> bytes option \<Rightarrow> bytes" where
  "cbor_marshal_fields f1 f2 =
     cbor_head 5 2 @ cbor_head 0 1 @ cbor_bytes f1 @ cbor_head 0 2 @ cbor_bytes f2"

definition cbor_unmarshal_fields :: "bytes \<Rightarrow> (bytes option \<times> bytes option) option" where
  "cbor_unmarshal_fields bs =
     (case bs of
        m # k1 # rest \<Rightarrow>
          if m = 0xA2 \<and> k1 = 0x01 then
            (case cbor_read_bytes rest of
               Some (f1, k2 # rest2) \<Rightarrow>
                 if k2 = 0x02 then
                   (case cbor_read_bytes rest2 of
                      Some (f2, []) \<Rightarrow> Some (f1, f2)
                    | _ \<Rightarrow> None)
                 else None
             | _ \<Rightarrow> None)
          else None
      | _ \<Rightarrow> None)"

definition xor_sum :: "bytes \<Rightarrow> byte" where
  "xor_sum bs = foldr (XOR) bs 0"

record world =
  world_rng :: nat
  world_counter :: "32 word"
  world_approves :: bool

definition ref_seal :: "bytes \<Rightarrow> bytes \<Rightarrow> world \<Rightarrow> (bytes \<times> bytes) \<times> world" where
  "ref_seal key data w =
     (let iv = FillBytes 12 (world_rng w);
          pad = xor_sum (key @ iv)
      in ((map (\<lambda>b. b XOR pad) data @ [xor_sum (pad # data)], iv),
          w\<lparr>world_rng := world_rng w + 1\<rparr>))"

definition ref_open :: "bytes \<Rightarrow> bytes \<times> bytes \<Rightarrow> panic + bytes" where
  "ref_open key box =
     (let (sealed, iv) = box;
          pad = xor_sum (key @ iv);
          data = map (\<lambda>b. b XOR pad) (butlast sealed)
      in if sealed \<noteq> [] \<and> last sealed = xor_sum (pad # data) then Inr data
         else Inr [])"

definition ref_sign :: "ecdsa_PrivateKey \<Rightarrow> bytes \<Rightarrow> world \<Rightarrow> bytes \<times> world" where
  "ref_sign k data w =
     ([0x30, xor_sum (FillBytes 32 (ecdsa_D k) @ data)],
      w\<lparr>world_rng := world_rng w + 1\<rparr>)"

definition ref_MarshalECPrivateKey :: "ecdsa_PrivateKey \<Rightarrow> bytes option" where
  "ref_MarshalECPrivateKey k =
     Some (FillBytes 32 (ecdsa_D k) @ FillBytes 32 (PublicKey_X k)
             @ FillBytes 32 (PublicKey_Y k))"

definition ref_ParseECPrivateKey :: "bytes \<Rightarrow> ecdsa_PrivateKey option" where
  "ref_ParseECPrivateKey bs =
     (if length bs = 96
      then Some \<lparr> ecdsa_D = FromBytes (take 32 bs),
                  PublicKey_X = FromBytes (take 32 (drop 32 bs)),
                  PublicKey_Y = FromBytes (drop 64 bs) \<rparr>
      else None)"

definition ref_crypto :: "(world, bytes \<times> bytes) crypto" where
  "ref_crypto =
     \<lparr> seal = ref_seal,
       open_box = ref_open,
       sign = ref_sign,
       MarshalCBOR_KeyHandle = (\<lambda>h. cbor_marshal_fields (PrivateKey h) (ApplicationID h)),
       Unmarshal_KeyHandle =
         (\<lambda>bs. map_option (\<lambda>(f1, f2). \<lparr> PrivateKey = f1, ApplicationID = f2 \<rparr>)
                  (cbor_unmarshal_fields bs)),
       MarshalCBOR_encryptedBox = (\<lambda>(d, iv). cbor_marshal_fields (Some d) (Some iv)),
       Unmarshal_encryptedBox =
         (\<lambda>bs. map_option (\<lambda>(f1, f2). (bytes_of f1, bytes_of f2)) (cbor_unmarshal_fields bs)),
       x509_MarshalECPrivateKey = ref_MarshalECPrivateKey,
       x509_ParseECPrivateKey = ref_ParseECPrivateKey \<rparr>"

text \<open>The key pair of the reference client is the one of secret 1: the base point of P-256.\<close>

definition ref_key :: ecdsa_PrivateKey where
  "ref_key =
     \<lparr> ecdsa_D = 1,
       PublicKey_X = 0x6B17D1F2E12C4247F8BCE6E563A440F277037D812DEB33A0F4A13945D898C296,
       PublicKey_Y = 0x4FE342E2FE1A7F9B8EE7EB4A7C0F9E162BCE33576B315ECECBB6406837BF51F5 \<rparr>"

definition ref_client :: "world FIDOClient" where
  "ref_client =
     \<lparr> SealingEncryptionKey = (\<lambda>w. replicate 32 0x2A),
       NewPrivateKey = (\<lambda>w. (ref_key, w\<lparr>world_rng := world_rng w + 1\<rparr>)),
       ApproveU2FRegistration = (\<lambda>h w. (world_approves w, w)),
       CreateAttestationCertificiate = (\<lambda>k w. ([0x30, 0x00], w)),
       ApproveU2FAuthentication = (\<lambda>h w. (world_approves w, w)),
       NewAuthenticationCounterId =
         (\<lambda>w. (world_counter w, w\<lparr>world_counter := world_counter w + 1\<rparr>)) \<rparr>"

definition w0 :: world where
  "w0 = \<lparr> world_rng = 7, world_counter = 0x10, world_approves = True \<rparr>"

text \<open>
  The requests of the scenarios of the spec: REGISTER with challenge \<open>0x42\<close> (32 times)
  and application \<open>0x17\<close> (32 times); AUTHENTICATE with a control byte and a key handle.
\<close>

definition register_apdu :: "bytes \<Rightarrow> bytes" where
  "register_apdu request =
     [0x00, 0x01, 0x00, 0x00, 0x00] @ ToBE16 (of_nat (length request)) @ request"

definition authenticate_apdu :: "byte \<Rightarrow> bytes \<Rightarrow> bytes \<Rightarrow> bytes \<Rightarrow> bytes" where
  "authenticate_apdu control challenge application handle =
     [0x00, 0x02, control, 0x00, 0x00] @
     ToBE16 (of_nat (length (challenge @ application @ [of_nat (length handle)] @ handle))) @
     challenge @ application @ [of_nat (length handle)] @ handle"

text \<open>
  A key handle as REGISTER builds it for the reference key and the application
  \<open>0x17\<close> (32 times), sealed in the state \<open>w0\<close>; the handle of a \<open>KeyHandle\<close> whose
  private key is \<open>nil\<close>; and the first handle with the last byte of its ciphertext (the
  tag) changed, which the reference cipher does not authenticate.
\<close>

definition ref_challenge :: bytes where "ref_challenge = replicate 32 0x42"

definition ref_application :: bytes where "ref_application = replicate 32 0x17"

definition ref_keyHandle :: KeyHandle where
  "ref_keyHandle =
     \<lparr> PrivateKey = ref_MarshalECPrivateKey ref_key, ApplicationID = Some ref_application \<rparr>"


definition nil_keyHandle :: KeyHandle where
  "nil_keyHandle = \<lparr> PrivateKey = None, ApplicationID = Some ref_application \<rparr>"

definition nil_handle :: bytes where
  "nil_handle = fst (sealKeyHandle ref_crypto ref_client nil_keyHandle w0)"



section \<open>Properties\<close>

subsection \<open>The descriptor tables\<close>

lemmas usb_table_defs =
  usbDescriptorDevice_def usbDescriptorConfiguration_def usbDescriptorString_def
  usbDescriptorInterface_def usbDescriptorEndpoint_def usbDescriptorHID_def
  usbDescriptorHIDReport_def usbInterfaceClassHID_def
  SizeOf_usbConfigurationDescriptor_def SizeOf_usbInterfaceDescriptor_def
  SizeOf_usbHIDDescriptor_def SizeOf_usbEndpointDescriptor_def
  getConfigurationDescriptor_def getInterfaceDescriptor_def getHIDDescriptor_def
  getHIDReport_def getEndpointDescriptors_def
  ToLE_usbConfigurationDescriptor_def ToLE_usbInterfaceDescriptor_def
  ToLE_usbHIDDescriptor_def ToLE_usbEndpointDescriptor_def ToLE16_def Concat_def

lemma getHIDReport_length: "length getHIDReport = 30"
  by (simp add: getHIDReport_def)

lemma getDescriptor_configuration_bytes:
  "getDescriptor c usbDescriptorConfiguration index =
     Inr [9, 2, 41, 0, 1, 0, 4, usbConfigAttributeBase c OR usbConfigAttributeSelfPowered c, 0,
          9, 4, 0, 0, 2, 3, 0, 0, 5,
          9, 0x21, 0x01, 0x01, 0, 1, 0x22, 30, 0,
          7, 5, 0x81, 3, 64, 0, 255,
          7, 5, 0x02, 3, 64, 0, 255]"
  by (simp add: getDescriptor_def usb_table_defs Let_def)

text \<open>
  C7.  The reply to \<open>GET_DESCRIPTOR(CONFIGURATION)\<close> is the configuration descriptor
  (9 bytes) followed by the interface descriptor (9), the HID descriptor (9) and the
  two endpoint descriptors (7 each, EP1-IN then EP2-OUT): 41 bytes, beginning with
  \<open>0x09 0x02\<close>, whose bytes 2 and 3 are \<open>wTotalLength\<close> = 41 little-endian, which is
  the length 32 of the tail plus the 9 bytes of the configuration descriptor itself.
\<close>

theorem C7_configuration_descriptor:
  "getDescriptor c usbDescriptorConfiguration index =
     Inr (ToLE_usbConfigurationDescriptor (getConfigurationDescriptor c 32) @
          ToLE_usbInterfaceDescriptor getInterfaceDescriptor @
          ToLE_usbHIDDescriptor (getHIDDescriptor getHIDReport) @
          ToLE_usbEndpointDescriptor (getEndpointDescriptors ! 0) @
          ToLE_usbEndpointDescriptor (getEndpointDescriptors ! 1))
   \<and> length (ToLE_usbConfigurationDescriptor (getConfigurationDescriptor c 32)) = 9
   \<and> length (ToLE_usbInterfaceDescriptor getInterfaceDescriptor) = 9
   \<and> length (ToLE_usbHIDDescriptor (getHIDDescriptor getHIDReport)) = 9
   \<and> map (length \<circ> ToLE_usbEndpointDescriptor) getEndpointDescriptors = [7, 7]
   \<and> map ep_BEndpointAddress getEndpointDescriptors = [0x81, 0x02]
   \<and> cfg_WTotalLength (getConfigurationDescriptor c 32) = 41
   \<and> (\<exists>tail. getDescriptor c usbDescriptorConfiguration index
                 = Inr ([0x09, 0x02] @ ToLE16 41 @ tail) \<and> length tail = 37
              \<and> length ([0x09, 0x02] @ ToLE16 41 @ tail) = 41
              \<and> unat (41 :: 16 word) = (length tail - 5) + 9)"
  by (simp add: getDescriptor_configuration_bytes) (simp add: usb_table_defs Let_def)

text \<open>
  C5, as the code has it.  The report map is the 30-byte sequence
  \<open>06 D0 F1 09 01 A1 01 09 20 14 25 FF 75 08 95 40 81 02 09 21 14 25 FF 75 08 95 40 91 02 C0\<close>.
  A HID-class \<open>GET_DESCRIPTOR\<close> to the interface with descriptor type \<open>HID_REPORT\<close>
  returns it; the configuration assembly does not embed the report map but its length
  30, as \<open>wReportDescriptorLength\<close> of the HID descriptor; \<open>GET_DESCRIPTOR\<close> to the
  device with type \<open>HID_REPORT\<close> is a fatal error.
\<close>

theorem C5_hid_report:
  "getHIDReport =
     [0x06, 0xD0, 0xF1, 0x09, 0x01, 0xA1, 0x01, 0x09, 0x20, 0x14, 0x25, 0xFF, 0x75, 0x08,
      0x95, 0x40, 0x81, 0x02, 0x09, 0x21, 0x14, 0x25, 0xFF, 0x75, 0x08, 0x95, 0x40, 0x91,
      0x02, 0xC0]
   \<and> length getHIDReport = 30
   \<and> (BRequest setup = usbHIDRequestGetDescriptor c
        \<and> BRequest setup \<noteq> usbHIDRequestSetIdle c
        \<and> BRequest setup \<noteq> usbHIDRequestSetProtocol c
        \<and> fst (getDescriptorTypeAndIndex (WValue setup)) = usbDescriptorHIDReport
      \<longrightarrow> handleInterfaceRequest c setup = Inr (Some getHIDReport))
   \<and> hid_WReportDescriptorLength (getHIDDescriptor getHIDReport) = 30
   \<and> ToLE16 (hid_WReportDescriptorLength (getHIDDescriptor getHIDReport)) = [30, 0]
   \<and> getDescriptor c usbDescriptorHIDReport index = Inl InvalidDescriptorType"
  by (auto simp: handleInterfaceRequest_def getDescriptor_def usb_table_defs split: prod.splits)

theorem C5_hid_report_witness:
  "handleInterfaceRequest usb_codes
     \<lparr> BmRequestType = 0x81, BRequest = 6, WValue = 0x2200, WIndex = 0, WLength = 0x22 \<rparr>
   = Inr (Some getHIDReport)"
proof -
  let ?s = "\<lparr> BmRequestType = 0x81, BRequest = 6, WValue = 0x2200, WIndex = 0,
              WLength = 0x22 \<rparr> :: usbSetupPacket"
  have h: "BRequest ?s = usbHIDRequestGetDescriptor usb_codes
        \<and> BRequest ?s \<noteq> usbHIDRequestSetIdle usb_codes
        \<and> BRequest ?s \<noteq> usbHIDRequestSetProtocol usb_codes
        \<and> fst (getDescriptorTypeAndIndex (WValue ?s)) = usbDescriptorHIDReport"
    by (simp add: usb_codes_def getDescriptorTypeAndIndex_def usbDescriptorHIDReport_def)
  from C5_hid_report [of ?s usb_codes] h show ?thesis by blast
qed

text \<open>
  The claim as it is stated asks for a report map of 34 bytes: the one returned has 30.
\<close>

theorem C5_hid_report_counterexample:
  "handleInterfaceRequest usb_codes
     \<lparr> BmRequestType = 0x81, BRequest = 6, WValue = 0x2200, WIndex = 0, WLength = 0x22 \<rparr>
   = Inr (Some getHIDReport)
   \<and> length getHIDReport \<noteq> 34"
  by (simp add: handleInterfaceRequest_def usb_codes_def getDescriptorTypeAndIndex_def
        usbDescriptorHIDReport_def getHIDReport_def)

subsection \<open>Status words, serialisation and decoding\<close>

lemma ToBE16_status:
  "ToBE16 u2f_SW_NO_ERROR = [0x90, 0x00]"
  "ToBE16 u2f_SW_WRONG_DATA = [0x6A, 0x80]"
  "ToBE16 u2f_SW_CONDITIONS_NOT_SATISFIED = [0x69, 0x85]"
  "ToBE16 u2f_SW_WRONG_LENGTH = [0x67, 0x00]"
  by (simp_all add: ToBE16_def u2f_SW_NO_ERROR_def u2f_SW_WRONG_DATA_def
      u2f_SW_CONDITIONS_NOT_SATISFIED_def u2f_SW_WRONG_LENGTH_def)



lemma ReadBE_uint16_ToBE16: "ReadBE_uint16 (ToBE16 x @ rest) = Inr (x, rest)"
proof -
  have "push_bit 8 (ucast (ucast (drop_bit 8 x :: 16 word) :: byte) :: 16 word)
          OR ucast (ucast x :: byte) = x"
    by (rule bit_word_eqI) (auto simp: bit_simps)
  then show ?thesis by (simp add: ReadBE_uint16_def ToBE16_def)
qed

text \<open>
  An APDU with a header, the extended-length marker, a request of 1 to 65535 bytes and
  no response length decodes to that header and that request.
\<close>

lemma decodeU2FMessage_request:
  assumes "request \<noteq> []" and "length request < 65536"
  shows "decodeU2FMessage ([cla, ins, p1, p2, 0] @ ToBE16 (of_nat (length request)) @ request)
           = Inr (\<lparr> Cla = cla, Command = ins, Param1 = p1, Param2 = p2 \<rparr>, request, 0)"
proof -
  have u: "unat (of_nat (length request) :: 16 word) = length request"
    using assms(2) by (simp add: unat_of_nat)
  show ?thesis
    using assms(1)
    by (simp add: decodeU2FMessage_def ReadBE_u2fMessageHeader_def bindP_def
          util_Read_def ReadBE_uint16_ToBE16 u)
qed

lemma decode_register_apdu:
  assumes "request \<noteq> []" and "length request < 65536"
  shows "decodeU2FMessage (register_apdu request)
           = Inr (\<lparr> Cla = 0, Command = 1, Param1 = 0, Param2 = 0 \<rparr>, request, 0)"
  unfolding register_apdu_def by (rule decodeU2FMessage_request [OF assms])

lemma handleU2FMessage_register:
  assumes "decodeU2FMessage message = Inr (header, request, responseLength)"
      and "Command header = u2f_COMMAND_REGISTER"
  shows "handleU2FMessage lib client message w = handleU2FRegister lib client header request w"
  using assms
  by (simp add: handleU2FMessage_def bindP_def u2f_COMMAND_REGISTER_def u2f_COMMAND_VERSION_def)

lemma handleU2FMessage_authenticate:
  assumes "decodeU2FMessage message = Inr (header, request, responseLength)"
      and "Command header = u2f_COMMAND_AUTHENTICATE"
  shows "handleU2FMessage lib client message w
           = handleU2FAuthenticate lib client header request w"
  using assms
  by (simp add: handleU2FMessage_def bindP_def u2f_COMMAND_REGISTER_def
       u2f_COMMAND_VERSION_def u2f_COMMAND_AUTHENTICATE_def)

subsection \<open>REGISTER: the length of the request\<close>

lemma handleU2FRegister_short:
  "length request < 32 \<Longrightarrow> handleU2FRegister lib client header request w = Inl SliceBounds"
  by (simp add: handleU2FRegister_def)

lemma handleU2FRegister_not_64:
  assumes "32 \<le> length request" and "length request \<noteq> 64"
  shows "handleU2FRegister lib client header request w
           = Inl (AssertFailed ''Application is not 32 bytes'')"
proof -
  have a: "length (take 32 request) = 32" using assms by simp
  have b: "length (drop 32 request) \<noteq> 32" using assms by simp
  have c: "\<not> length request < 32" using assms by simp
  show ?thesis
    unfolding handleU2FRegister_def Let_def using a b c
    by (simp del: length_take length_drop)
qed

lemma handleU2FRegister_results:
  assumes "handleU2FRegister lib client header request w = Inr (r, w')"
  shows "r = ToBE16 u2f_SW_CONDITIONS_NOT_SATISFIED \<or> (\<exists>t. r = 0x05 # t)"
proof -
  obtain privateKey w1 where k: "NewPrivateKey client w = (privateKey, w1)"
    by (cases "NewPrivateKey client w")
  show ?thesis
    using assms k
    by (auto simp: handleU2FRegister_def Let_def bindP_def Flatten_def
         split: if_splits sum.splits option.splits prod.splits)
qed

lemma handleU2FRegister_64:
  assumes "length request = 64" and "handleU2FRegister lib client header request w = Inl e"
  shows "e = BufferTooSmall \<or> e = CheckErrFailed ''Could not encode private key''"
  using assms
  by (auto simp: handleU2FRegister_def Let_def bindP_def elliptic_Marshal_def
       split: if_splits sum.splits option.splits prod.splits)

text \<open>
  C1, as the code has it.  A REGISTER request that is not exactly 64 bytes long gets no
  status word: the call panics, on the slice expression when the request has fewer than
  32 bytes and on the assertion \<open>Application is not 32 bytes\<close> otherwise.  A 64-byte
  request passes both assertions.  No REGISTER request at all is answered with
  \<open>SW_WRONG_DATA\<close>.
\<close>

theorem C1_register_length:
  assumes "decodeU2FMessage message = Inr (header, request, responseLength)"
      and "Command header = u2f_COMMAND_REGISTER"
  shows "(length request < 32 \<longrightarrow> handleU2FMessage lib client message w = Inl SliceBounds)
       \<and> (32 \<le> length request \<and> length request \<noteq> 64 \<longrightarrow>
            handleU2FMessage lib client message w
              = Inl (AssertFailed ''Application is not 32 bytes''))
       \<and> (length request = 64 \<longrightarrow>
            handleU2FMessage lib client message w \<noteq> Inl SliceBounds
            \<and> (\<forall>m. handleU2FMessage lib client message w \<noteq> Inl (AssertFailed m)))
       \<and> (\<forall>w'. handleU2FMessage lib client message w \<noteq> Inr (ToBE16 u2f_SW_WRONG_DATA, w'))"
proof -
  have m: "handleU2FMessage lib client message w
             = handleU2FRegister lib client header request w"
    by (rule handleU2FMessage_register [OF assms])
  have 1: "length request < 32 \<longrightarrow>
             handleU2FRegister lib client header request w = Inl SliceBounds"
    by (simp add: handleU2FRegister_short)
  have 2: "32 \<le> length request \<and> length request \<noteq> 64 \<longrightarrow>
             handleU2FRegister lib client header request w
               = Inl (AssertFailed ''Application is not 32 bytes'')"
    by (simp add: handleU2FRegister_not_64)
  have 3: "length request = 64 \<longrightarrow>
             handleU2FRegister lib client header request w \<noteq> Inl SliceBounds
             \<and> (\<forall>m. handleU2FRegister lib client header request w \<noteq> Inl (AssertFailed m))"
    using handleU2FRegister_64 [of request lib client header w] by auto
  have 4: "\<forall>w'. handleU2FRegister lib client header request w
                  \<noteq> Inr (ToBE16 u2f_SW_WRONG_DATA, w')"
    using handleU2FRegister_results [of lib client header request w]
    by (auto simp: ToBE16_status)
  show ?thesis unfolding m using 1 2 3 4 by blast
qed

theorem C1_register_length_witness:
  "handleU2FMessage ref_crypto ref_client (register_apdu [1, 2, 3]) w0 = Inl SliceBounds
   \<and> handleU2FMessage ref_crypto ref_client
        (register_apdu (replicate 32 0x42 @ replicate 32 0x17)) w0 \<noteq> Inl SliceBounds"
proof -
  have c: "Command \<lparr> Cla = 0, Command = 1, Param1 = 0, Param2 = 0 \<rparr> = u2f_COMMAND_REGISTER"
    by (simp add: u2f_COMMAND_REGISTER_def)
  have d3: "decodeU2FMessage (register_apdu [1, 2, 3])
              = Inr (\<lparr> Cla = 0, Command = 1, Param1 = 0, Param2 = 0 \<rparr>, [1, 2, 3], 0)"
    by (rule decode_register_apdu) simp_all
  have d64: "decodeU2FMessage (register_apdu (replicate 32 0x42 @ replicate 32 0x17))
              = Inr (\<lparr> Cla = 0, Command = 1, Param1 = 0, Param2 = 0 \<rparr>,
                     replicate 32 0x42 @ replicate 32 0x17, 0)"
    by (rule decode_register_apdu) simp_all
  from C1_register_length [OF d3 c, of ref_crypto ref_client w0]
       C1_register_length [OF d64 c, of ref_crypto ref_client w0]
  show ?thesis by simp
qed

text \<open>
  The claim as it is stated asks for the status word \<open>SW_WRONG_DATA\<close>: a REGISTER
  request of 65 bytes ends in the failed assertion instead.
\<close>

theorem C1_register_length_counterexample:
  "handleU2FMessage ref_crypto ref_client (register_apdu (replicate 65 0x42)) w0
     = Inl (AssertFailed ''Application is not 32 bytes'')
   \<and> handleU2FMessage ref_crypto ref_client (register_apdu (replicate 65 0x42)) w0
     \<noteq> Inr (ToBE16 u2f_SW_WRONG_DATA, w0)"
proof -
  have d: "decodeU2FMessage (register_apdu (replicate 65 0x42))
             = Inr (\<lparr> Cla = 0, Command = 1, Param1 = 0, Param2 = 0 \<rparr>, replicate 65 0x42, 0)"
    by (rule decode_register_apdu) simp_all
  have "handleU2FMessage ref_crypto ref_client (register_apdu (replicate 65 0x42)) w0
          = handleU2FRegister ref_crypto ref_client
              \<lparr> Cla = 0, Command = 1, Param1 = 0, Param2 = 0 \<rparr> (replicate 65 0x42) w0"
    by (rule handleU2FMessage_register [OF d]) (simp add: u2f_COMMAND_REGISTER_def)
  also have "\<dots> = Inl (AssertFailed ''Application is not 32 bytes'')"
    by (rule handleU2FRegister_not_64) simp_all
  finally show ?thesis by simp
qed

subsection \<open>The CLA byte\<close>

lemma handleU2FRegister_header:
  "handleU2FRegister lib client h request w = handleU2FRegister lib client h' request w"
  by (simp add: handleU2FRegister_def)

lemma handleU2FAuthenticate_header:
  "Param1 h = Param1 h' \<Longrightarrow>
   handleU2FAuthenticate lib client h request w = handleU2FAuthenticate lib client h' request w"
  by (simp add: handleU2FAuthenticate_def)

lemma decodeU2FMessage_Cla:
  "decodeU2FMessage (cla # rest) = Inl e \<Longrightarrow> decodeU2FMessage (cla' # rest) = Inl e"
  "decodeU2FMessage (cla # rest) = Inr (h, r, l) \<Longrightarrow>
     decodeU2FMessage (cla' # rest) = Inr (h\<lparr>Cla := cla'\<rparr>, r, l)"
  by (auto simp: decodeU2FMessage_def ReadBE_u2fMessageHeader_def bindP_def
       split: list.splits sum.splits prod.splits if_splits)

text \<open>
  C8.  Two APDUs that differ only in their first byte (CLA) get the same outcome from
  the same client in the same state: the same response and the same new state, or the
  same fatal error.  No value of CLA is rejected: the byte is stored in the header and
  never read.
\<close>

theorem C8_cla_ignored:
  "handleU2FMessage lib client (cla # rest) w = handleU2FMessage lib client (cla' # rest) w"
proof (cases "decodeU2FMessage (cla # rest)")
  case (Inl e)
  then show ?thesis
    using decodeU2FMessage_Cla(1) [OF Inl, of cla']
    by (simp add: handleU2FMessage_def bindP_def)
next
  case (Inr t)
  obtain h r l where t: "t = (h, r, l)" by (cases t)
  from Inr t have d: "decodeU2FMessage (cla # rest) = Inr (h, r, l)" by simp
  from decodeU2FMessage_Cla(2) [OF d, of cla'] d show ?thesis
    by (simp add: handleU2FMessage_def bindP_def
          handleU2FRegister_header [of lib client "h\<lparr>Cla := cla'\<rparr>" r w h]
          handleU2FAuthenticate_header [of "h\<lparr>Cla := cla'\<rparr>" h lib client r w])
qed

subsection \<open>AUTHENTICATE\<close>

text \<open>
  With a request laid out as \<open>challenge[32] \<parallel> application[32] \<parallel> handle_len \<parallel> handle\<close>
  (and whatever follows), the four reads succeed and what remains is to open the handle.
\<close>

lemma authenticate_reads:
  assumes "length challenge = 32" and "length application = 32"
      and "length handle = unat keyHandleLength"
  shows "handleU2FAuthenticate lib client header
           (challenge @ application @ keyHandleLength # handle @ rest) w
         = bindP (openKeyHandle lib client handle w) (\<lambda>opened.
             case opened of
               None \<Rightarrow> Inr (ToBE16 u2f_SW_WRONG_DATA, w)
             | Some keyHandle \<Rightarrow>
                 if PrivateKey keyHandle = None
                    \<or> bytes_of (ApplicationID keyHandle) \<noteq> application
                 then Inr (ToBE16 u2f_SW_WRONG_DATA, w)
                 else
                   (case x509_ParseECPrivateKey lib (bytes_of (PrivateKey keyHandle)) of
                      None \<Rightarrow> Inl (CheckErrFailed ''Could not decode private key'')
                    | Some privateKey \<Rightarrow>
                        if Param1 header = u2f_AUTH_CONTROL_CHECK_ONLY
                        then Inr (ToBE16 u2f_SW_CONDITIONS_NOT_SATISFIED, w)
                        else if Param1 header = u2f_AUTH_CONTROL_ENFORCE_USER_PRESENCE_AND_SIGN
                                \<or> Param1 header = u2f_AUTH_CONTROL_SIGN
                        then
                          let (approved, w1) =
                                (if Param1 header
                                      = u2f_AUTH_CONTROL_ENFORCE_USER_PRESENCE_AND_SIGN
                                 then ApproveU2FAuthentication client keyHandle w
                                 else (True, w))
                          in if \<not> approved
                             then Inr (ToBE16 u2f_SW_CONDITIONS_NOT_SATISFIED, w1)
                             else
                               let (counter, w2) = NewAuthenticationCounterId client w1;
                                   signatureDataBytes =
                                     Flatten [application, [1], ToBE32 counter, challenge];
                                   (signature, w3) =
                                     sign lib privateKey signatureDataBytes w2
                               in Inr (Flatten [[1], ToBE32 counter, signature,
                                                ToBE16 u2f_SW_NO_ERROR], w3)
                        else Inr (ToBE16 u2f_SW_WRONG_LENGTH, w)))"
  using assms
  by (simp add: handleU2FAuthenticate_def util_Read_def ReadLE_uint8_def bindP_def Let_def)


text \<open>
  C10.  An AUTHENTICATE request whose key handle opens (the envelope decodes, \<open>open\<close>
  returns and the plaintext decodes) to a \<open>KeyHandle\<close> with a \<open>nil\<close> private key is
  answered with \<open>SW_WRONG_DATA\<close> (\<open>6A 80\<close>) and the state of the world is unchanged,
  whatever the control byte and whatever the application ID of the handle.
\<close>

theorem C10_nil_private_key:
  assumes "decodeU2FMessage message = Inr (header, request, responseLength)"
      and "Command header = u2f_COMMAND_AUTHENTICATE"
      and "request = challenge @ application @ [keyHandleLength] @ handle @ rest"
      and "length challenge = 32" and "length application = 32"
      and "length handle = unat keyHandleLength"
      and "openKeyHandle lib client handle w = Inr (Some keyHandle)"
      and "PrivateKey keyHandle = None"
  shows "handleU2FMessage lib client message w = Inr ([0x6A, 0x80], w)"
  using assms(7,8)
  by (simp add: handleU2FMessage_authenticate [OF assms(1,2)] assms(3)
        authenticate_reads [OF assms(4,5,6)] bindP_def ToBE16_status)



subsection \<open>REGISTER: the response\<close>

lemma length_FillBytes: "length (FillBytes n x) = n"
  by (induction n arbitrary: x) simp_all

text \<open>
  C4.  A REGISTER request of 64 bytes that the user approves, for a key whose
  coordinates fit 32 bytes and that \<open>x509.MarshalECPrivateKey\<close> encodes: the response is
  \<open>0x05\<close>, the public key (65 bytes, the first one \<open>0x04\<close>), one byte with the length
  of the key handle, the sealed key handle, the attestation certificate, the signature
  made with the new key over \<open>0x00 \<parallel> application \<parallel> challenge \<parallel> handle \<parallel> public key\<close>,
  and \<open>90 00\<close>.  The length byte is the length of the handle whenever the handle has
  fewer than 256 bytes.
\<close>

theorem C4_register_response:
  assumes "decodeU2FMessage message = Inr (header, request, responseLength)"
      and "Command header = u2f_COMMAND_REGISTER"
      and "request = challenge @ application"
      and "length challenge = 32" and "length application = 32"
      and "NewPrivateKey client w = (privateKey, w1)"
      and "PublicKey_X privateKey < 2 ^ 256" and "PublicKey_Y privateKey < 2 ^ 256"
      and "publicKey = [0x04] @ FillBytes 32 (PublicKey_X privateKey)
                              @ FillBytes 32 (PublicKey_Y privateKey)"
      and "x509_MarshalECPrivateKey lib privateKey = Some encodedPrivateKey"
      and "sealKeyHandle lib client
             \<lparr> PrivateKey = Some encodedPrivateKey, ApplicationID = Some application \<rparr> w1
             = (keyHandle, w2)"
      and "ApproveU2FRegistration client
             \<lparr> PrivateKey = Some encodedPrivateKey, ApplicationID = Some application \<rparr> w2
             = (True, w3)"
      and "CreateAttestationCertificiate client privateKey w3 = (cert, w4)"
      and "sign lib privateKey
             ([0x00] @ application @ challenge @ keyHandle @ publicKey) w4 = (signature, w5)"
  shows "handleU2FMessage lib client message w
           = Inr ([0x05] @ publicKey @ [of_nat (length keyHandle)] @ keyHandle @ cert
                    @ signature @ [0x90, 0x00], w5)
         \<and> length publicKey = 65 \<and> hd publicKey = 0x04
         \<and> (length keyHandle < 256
              \<longrightarrow> unat (of_nat (length keyHandle) :: byte) = length keyHandle)"
proof -
  have "handleU2FRegister lib client header (challenge @ application) w
           = Inr ([0x05] @ publicKey @ [of_nat (length keyHandle)] @ keyHandle @ cert
                    @ signature @ [0x90, 0x00], w5)"
    using assms(4-14)
    by (simp add: handleU2FRegister_def Let_def bindP_def elliptic_Marshal_def Flatten_def
          ToBE16_status)
  moreover have "length publicKey = 65 \<and> hd publicKey = 0x04"
    by (simp add: assms(9) length_FillBytes)
  moreover have "length keyHandle < 256
              \<longrightarrow> unat (of_nat (length keyHandle) :: byte) = length keyHandle"
    by (simp add: unat_of_nat)
  ultimately show ?thesis
    by (simp add: handleU2FMessage_register [OF assms(1,2)] assms(3))
qed

subsection \<open>Sealing and opening a key handle\<close>

lemma openKeyHandle_sealKeyHandle:
  assumes "sealKeyHandle lib client h w = (handle, w1)"
      and "SealingEncryptionKey client w2 = SealingEncryptionKey client w"
      and "seal lib (SealingEncryptionKey client w) (MarshalCBOR_KeyHandle lib h) w = (box, w1)"
      and "Unmarshal_encryptedBox lib (MarshalCBOR_encryptedBox lib box) = Some box"
      and "open_box lib (SealingEncryptionKey client w) box = Inr (MarshalCBOR_KeyHandle lib h)"
      and "Unmarshal_KeyHandle lib (MarshalCBOR_KeyHandle lib h) = Some h"
  shows "openKeyHandle lib client handle w2 = Inr (Some h)"
proof -
  have "handle = MarshalCBOR_encryptedBox lib box"
    using assms(1,3) by (simp add: sealKeyHandle_def)
  then show ?thesis
    using assms(2,4,5,6) by (simp add: openKeyHandle_def bindP_def)
qed

text \<open>
  C2.  \<open>openKeyHandle\<close> gives back the key handle that \<open>sealKeyHandle\<close> sealed, with
  no error, when the sealing key is the same at both calls and the collaborators keep
  their contracts on this handle: \<open>open\<close> returns what \<open>seal\<close> was given, and
  \<open>cbor.Unmarshal\<close> reads back what \<open>util.MarshalCBOR\<close> wrote, for the box and for the
  key handle.  This holds for every key handle, the ones with a private key of at most
  200 bytes and an application ID of 32 bytes among them.
\<close>

theorem C2_open_seal:
  assumes "sealKeyHandle lib client h w = (handle, w1)"
      and "SealingEncryptionKey client w2 = SealingEncryptionKey client w"
      and "seal lib (SealingEncryptionKey client w) (MarshalCBOR_KeyHandle lib h) w = (box, w1)"
      and "Unmarshal_encryptedBox lib (MarshalCBOR_encryptedBox lib box) = Some box"
      and "open_box lib (SealingEncryptionKey client w) box = Inr (MarshalCBOR_KeyHandle lib h)"
      and "Unmarshal_KeyHandle lib (MarshalCBOR_KeyHandle lib h) = Some h"
  shows "openKeyHandle lib client handle w2 = Inr (Some h)"
  using assms by (rule openKeyHandle_sealKeyHandle)

subsection \<open>The reference environment keeps the contracts\<close>

lemma FromBytes_snoc: "FromBytes (bs @ [b]) = 256 * FromBytes bs + unat b"
  by (simp add: FromBytes_def)

lemma FromBytes_FillBytes: "FromBytes (FillBytes k n) = n mod 256 ^ k"
proof (induction k arbitrary: n)
  case 0
  show ?case by (simp add: FromBytes_def)
next
  case (Suc k)
  have "FromBytes (FillBytes (Suc k) n) = 256 * (n div 256 mod 256 ^ k) + n mod 256"
    by (simp add: FromBytes_snoc Suc.IH unat_of_nat)
  also have "\<dots> = n mod 256 ^ Suc k"
    by (simp add: mod_mult2_eq)
  finally show ?case .
qed

lemma FromBytes_FillBytes_fits: "n < 256 ^ k \<Longrightarrow> FromBytes (FillBytes k n) = n"
  by (simp add: FromBytes_FillBytes)

lemma unat_head_byte:
  assumes "major < 8" and "i < 32"
  shows "unat (of_nat (32 * major + i) :: byte) = 32 * major + i"
proof -
  have "unat (of_nat (32 * major + i) :: byte) = (32 * major + i) mod 2 ^ LENGTH(8)"
    by (rule unat_of_nat)
  also have "\<dots> = 32 * major + i" using assms by simp
  finally show ?thesis .
qed

lemma cbor_read_head_short:
  assumes "major < 8" and "n < 24"
  shows "cbor_read_head (of_nat (32 * major + n) # rest) = Some (major, n, rest)"
proof -
  have u: "unat (of_nat (32 * major + n) :: byte) = 32 * major + n"
    using assms by (intro unat_head_byte) simp_all
  show ?thesis
    unfolding cbor_read_head_def Let_def list.case u using assms(2) by simp
qed

lemma cbor_read_head_long:
  assumes "major < 8" and "24 \<le> i" and "i \<le> 27" and "length bs = 2 ^ (i - 24)"
  shows "cbor_read_head (of_nat (32 * major + i) # bs @ rest) = Some (major, FromBytes bs, rest)"
proof -
  have u: "unat (of_nat (32 * major + i) :: byte) = 32 * major + i"
    using assms by (intro unat_head_byte) simp_all
  have t: "take (2 ^ (i - 24)) (bs @ rest) = bs" "drop (2 ^ (i - 24)) (bs @ rest) = rest"
    using assms(4) by simp_all
  have l: "\<not> length (bs @ rest) < 2 ^ (i - 24)" using assms(4) by simp
  show ?thesis
    unfolding cbor_read_head_def Let_def list.case u using assms(2,3) l t
    by simp
qed

lemma cbor_read_head_cbor_head:
  assumes "major < 8" and "n < 2 ^ 64"
  shows "cbor_read_head (cbor_head major n @ rest) = Some (major, n, rest)"
proof -
  have long: "cbor_read_head (of_nat (32 * major + i) # FillBytes k n @ rest)
                = Some (major, n, rest)"
    if "24 \<le> i" "i \<le> 27" "k = 2 ^ (i - 24)" "n < 256 ^ k" for i k
    using cbor_read_head_long [OF assms(1) that(1,2), of "FillBytes k n" rest] that(3,4)
    by (simp add: length_FillBytes FromBytes_FillBytes_fits del: FillBytes.simps)
  consider "n < 24" | "24 \<le> n" "n < 2 ^ 8" | "2 ^ 8 \<le> n" "n < 2 ^ 16"
    | "2 ^ 16 \<le> n" "n < 2 ^ 32" | "2 ^ 32 \<le> n"
    by linarith
  then show ?thesis
  proof cases
    case 1
    then show ?thesis
      using cbor_read_head_short [OF assms(1) 1] by (simp add: cbor_head_def)
  next
    case 2
    have "cbor_head major n = of_nat (32 * major + 24) # FillBytes 1 n"
      using 2 by (simp add: cbor_head_def)
    then show ?thesis using long [of 24 1] 2 by simp
  next
    case 3
    have "cbor_head major n = of_nat (32 * major + 25) # FillBytes 2 n"
      using 3 by (simp add: cbor_head_def)
    then show ?thesis using long [of 25 2] 3 by simp
  next
    case 4
    have "cbor_head major n = of_nat (32 * major + 26) # FillBytes 4 n"
      using 4 by (simp add: cbor_head_def)
    then show ?thesis using long [of 26 4] 4 by simp
  next
    case 5
    have "cbor_head major n = of_nat (32 * major + 27) # FillBytes 8 n"
      using 5 by (simp add: cbor_head_def)
    then show ?thesis using long [of 27 8] 5 assms(2) by simp
  qed
qed


lemma cbor_head_bytes_not_null: "hd (cbor_head 2 n @ rest) \<noteq> (0xF6 :: byte)"
proof (cases "n < 24")
  case True
  have "unat (of_nat (32 * 2 + n) :: byte) = 32 * 2 + n"
    by (rule unat_head_byte) (use True in simp_all)
  moreover have "unat (0xF6 :: byte) = 246" by simp
  ultimately have "(of_nat (32 * 2 + n) :: byte) \<noteq> 0xF6" using True by force
  then show ?thesis using True by (simp add: cbor_head_def)
next
  case False
  then show ?thesis by (simp add: cbor_head_def)
qed

lemma cbor_head_nonempty: "cbor_head major n \<noteq> []"
  by (simp add: cbor_head_def)

lemma cbor_read_bytes_cbor_bytes:
  assumes "\<And>b. f = Some b \<Longrightarrow> length b < 2 ^ 64"
  shows "cbor_read_bytes (cbor_bytes f @ rest) = Some (f, rest)"
proof (cases f)
  case None
  then show ?thesis by (simp add: cbor_read_bytes_def cbor_bytes_def)
next
  case (Some b)
  have h: "cbor_read_head (cbor_head 2 (length b) @ b @ rest) = Some (2, length b, b @ rest)"
    by (rule cbor_read_head_cbor_head) (use assms Some in simp_all)
  have n: "hd (cbor_head 2 (length b) @ b @ rest) \<noteq> 0xF6"
    by (rule cbor_head_bytes_not_null)
  show ?thesis
    using h n by (simp add: cbor_read_bytes_def cbor_bytes_def Some)
qed

lemma cbor_unmarshal_marshal_fields:
  assumes "\<And>b. f1 = Some b \<Longrightarrow> length b < 2 ^ 64"
      and "\<And>b. f2 = Some b \<Longrightarrow> length b < 2 ^ 64"
  shows "cbor_unmarshal_fields (cbor_marshal_fields f1 f2) = Some (f1, f2)"
proof -
  have m: "cbor_marshal_fields f1 f2 = 0xA2 # 0x01 # cbor_bytes f1 @ 0x02 # cbor_bytes f2"
    by (simp add: cbor_marshal_fields_def cbor_head_def)
  have r1: "cbor_read_bytes (cbor_bytes f1 @ 0x02 # cbor_bytes f2)
              = Some (f1, 0x02 # cbor_bytes f2)"
    by (rule cbor_read_bytes_cbor_bytes) (rule assms(1))
  have r2: "cbor_read_bytes (cbor_bytes f2) = Some (f2, [])"
    using cbor_read_bytes_cbor_bytes [of f2 "[]"] assms(2) by simp
  show ?thesis
    unfolding m cbor_unmarshal_fields_def by (simp add: r1 r2)
qed

lemma map_xor_twice: "map ((\<lambda>b. b XOR p) \<circ> (\<lambda>b. b XOR p)) data = data" for p :: byte
  by (induction data) (simp_all add: xor.assoc)

lemma ref_open_ref_seal: "ref_open key (fst (ref_seal key data w)) = Inr data"
  by (simp add: ref_open_def ref_seal_def Let_def map_xor_twice del: FillBytes.simps)


lemma length_cbor_head: "length (cbor_head major n) \<le> 9"
  by (simp add: cbor_head_def length_FillBytes del: FillBytes.simps)

lemma length_cbor_bytes: "length (cbor_bytes f) \<le> 9 + length (bytes_of f)"
  using length_cbor_head [of 2 "length (bytes_of f)"]
  by (cases f) (simp_all add: cbor_bytes_def bytes_of_def)

lemma length_cbor_marshal_fields:
  "length (cbor_marshal_fields f1 f2) \<le> 21 + length (bytes_of f1) + length (bytes_of f2)"
proof -
  have "length (cbor_marshal_fields f1 f2)
          = 3 + length (cbor_bytes f1) + length (cbor_bytes f2)"
    by (simp add: cbor_marshal_fields_def cbor_head_def)
  then show ?thesis
    using length_cbor_bytes [of f1] length_cbor_bytes [of f2] by linarith
qed

lemma ref_seal_handle:
  "sealKeyHandle ref_crypto ref_client h w
     = (cbor_marshal_fields
          (Some (fst (fst (ref_seal (replicate 32 0x2A)
                        (cbor_marshal_fields (PrivateKey h) (ApplicationID h)) w))))
          (Some (FillBytes 12 (world_rng w))),
        w\<lparr>world_rng := world_rng w + 1\<rparr>)"
  by (simp add: sealKeyHandle_def ref_crypto_def ref_client_def ref_seal_def Let_def
        del: FillBytes.simps)

lemma length_ref_handle:
  "length (fst (sealKeyHandle ref_crypto ref_client h w))
     \<le> 55 + length (bytes_of (PrivateKey h)) + length (bytes_of (ApplicationID h))"
proof -
  let ?data = "cbor_marshal_fields (PrivateKey h) (ApplicationID h)"
  let ?ct = "fst (fst (ref_seal (replicate 32 0x2A) ?data w))"
  have c: "length ?ct = length ?data + 1"
    by (simp add: ref_seal_def Let_def del: FillBytes.simps)
  have "length (fst (sealKeyHandle ref_crypto ref_client h w))
          \<le> 21 + length (bytes_of (Some ?ct)) + length (bytes_of (Some (FillBytes 12 (world_rng w))))"
    unfolding ref_seal_handle fst_conv by (rule length_cbor_marshal_fields)
  also have "\<dots> = 34 + length ?data"
    by (simp add: bytes_of_def c length_FillBytes del: FillBytes.simps)
  also have "\<dots> \<le> 55 + length (bytes_of (PrivateKey h)) + length (bytes_of (ApplicationID h))"
    using length_cbor_marshal_fields [of "PrivateKey h" "ApplicationID h"] by simp
  finally show ?thesis .
qed

lemma ref_Unmarshal_KeyHandle:
  assumes "length (bytes_of (PrivateKey h)) < 2 ^ 64"
      and "length (bytes_of (ApplicationID h)) < 2 ^ 64"
  shows "Unmarshal_KeyHandle ref_crypto (MarshalCBOR_KeyHandle ref_crypto h) = Some h"
proof -
  have "cbor_unmarshal_fields (cbor_marshal_fields (PrivateKey h) (ApplicationID h))
          = Some (PrivateKey h, ApplicationID h)"
    by (rule cbor_unmarshal_marshal_fields) (use assms in \<open>simp_all add: bytes_of_def\<close>)
  then show ?thesis by (simp add: ref_crypto_def)
qed

lemma ref_Unmarshal_encryptedBox:
  assumes "length (fst box) < 2 ^ 64" and "length (snd box) < 2 ^ 64"
  shows "Unmarshal_encryptedBox ref_crypto (MarshalCBOR_encryptedBox ref_crypto box) = Some box"
proof -
  have "cbor_unmarshal_fields (cbor_marshal_fields (Some (fst box)) (Some (snd box)))
          = Some (Some (fst box), Some (snd box))"
    by (rule cbor_unmarshal_marshal_fields) (use assms in simp_all)
  then show ?thesis by (simp add: ref_crypto_def bytes_of_def split_beta)
qed

lemma ref_open_sealed_handle:
  assumes "length (bytes_of (PrivateKey h)) < 2 ^ 32"
      and "length (bytes_of (ApplicationID h)) < 2 ^ 32"
  shows "openKeyHandle ref_crypto ref_client
           (fst (sealKeyHandle ref_crypto ref_client h w)) w2 = Inr (Some h)"
proof -
  let ?key = "SealingEncryptionKey ref_client w"
  let ?data = "MarshalCBOR_KeyHandle ref_crypto h"
  obtain box w1 where s: "seal ref_crypto ?key ?data w = (box, w1)"
    by (cases "seal ref_crypto ?key ?data w")
  have sk: "sealKeyHandle ref_crypto ref_client h w = (MarshalCBOR_encryptedBox ref_crypto box, w1)"
    using s by (simp add: sealKeyHandle_def)
  have b: "box = fst (ref_seal ?key ?data w)"
    using s by (simp add: ref_crypto_def)
  have ld: "length ?data \<le> 21 + length (bytes_of (PrivateKey h))
                             + length (bytes_of (ApplicationID h))"
    using length_cbor_marshal_fields [of "PrivateKey h" "ApplicationID h"]
    by (simp add: ref_crypto_def)
  have l1: "length (fst box) = length ?data + 1" and l2: "length (snd box) = 12"
    unfolding b by (simp_all add: ref_seal_def Let_def length_FillBytes del: FillBytes.simps)
  have "length (fst box) < 2 ^ 64" using l1 ld assms by simp
  moreover have "length (snd box) < 2 ^ 64" using l2 by simp
  ultimately have u: "Unmarshal_encryptedBox ref_crypto (MarshalCBOR_encryptedBox ref_crypto box)
                        = Some box"
    by (rule ref_Unmarshal_encryptedBox)
  have o: "open_box ref_crypto ?key box = Inr ?data"
    unfolding b using ref_open_ref_seal [of ?key ?data w] by (simp add: ref_crypto_def)
  have k: "Unmarshal_KeyHandle ref_crypto ?data = Some h"
    by (rule ref_Unmarshal_KeyHandle) (use assms in simp_all)
  have "SealingEncryptionKey ref_client w2 = ?key" by (simp add: ref_client_def)
  from openKeyHandle_sealKeyHandle [OF sk this s u o k] show ?thesis by (simp add: sk)
qed

lemma decode_authenticate_apdu:
  assumes "length challenge = 32" and "length application = 32" and "length handle < 256"
  shows "decodeU2FMessage (authenticate_apdu control challenge application handle)
           = Inr (\<lparr> Cla = 0, Command = 2, Param1 = control, Param2 = 0 \<rparr>,
                  challenge @ application @ [of_nat (length handle)] @ handle, 0)"
  unfolding authenticate_apdu_def
  by (rule decodeU2FMessage_request) (use assms in simp_all)

subsection \<open>Witnesses in the reference environment\<close>

lemma ref_key_fits:
  "ecdsa_D ref_key < 2 ^ 256" "PublicKey_X ref_key < 2 ^ 256" "PublicKey_Y ref_key < 2 ^ 256"
  by (simp_all add: ref_key_def)

lemma ref_keyHandle_fields:
  "PrivateKey ref_keyHandle = Some (FillBytes 32 (ecdsa_D ref_key)
       @ FillBytes 32 (PublicKey_X ref_key) @ FillBytes 32 (PublicKey_Y ref_key))"
  "ApplicationID ref_keyHandle = Some ref_application"
  by (simp_all add: ref_keyHandle_def ref_MarshalECPrivateKey_def del: FillBytes.simps)

lemma ref_keyHandle_lengths:
  "length (bytes_of (PrivateKey ref_keyHandle)) = 96"
  "length (bytes_of (ApplicationID ref_keyHandle)) = 32"
  by (simp_all add: ref_keyHandle_fields bytes_of_def
        ref_application_def length_FillBytes del: FillBytes.simps)



text \<open>
  Witness of C2.  The reference handle, sealed in the state \<open>w0\<close>, is opened in a later state.
\<close>

theorem C2_open_seal_witness:
  "openKeyHandle ref_crypto ref_client
     (fst (sealKeyHandle ref_crypto ref_client ref_keyHandle w0))
     (w0\<lparr>world_counter := 0x11\<rparr>) = Inr (Some ref_keyHandle)"
proof -
  let ?key = "SealingEncryptionKey ref_client w0"
  let ?data = "MarshalCBOR_KeyHandle ref_crypto ref_keyHandle"
  let ?box = "fst (seal ref_crypto ?key ?data w0)"
  let ?w1 = "w0\<lparr>world_rng := world_rng w0 + 1\<rparr>"
  have s: "seal ref_crypto ?key ?data w0 = (?box, ?w1)"
    by (simp add: ref_crypto_def ref_seal_def Let_def del: FillBytes.simps)
  have sk: "sealKeyHandle ref_crypto ref_client ref_keyHandle w0
              = (fst (sealKeyHandle ref_crypto ref_client ref_keyHandle w0), ?w1)"
    by (simp add: ref_seal_handle)
  have key: "SealingEncryptionKey ref_client (w0\<lparr>world_counter := 0x11\<rparr>) = ?key"
    by (simp add: ref_client_def)
  have ld: "length ?data \<le> 149"
    using length_cbor_marshal_fields [of "PrivateKey ref_keyHandle" "ApplicationID ref_keyHandle"]
    by (simp add: ref_crypto_def ref_keyHandle_lengths)
  have l: "length (fst ?box) = length ?data + 1" "length (snd ?box) = 12"
    by (simp_all add: ref_crypto_def ref_seal_def Let_def length_FillBytes del: FillBytes.simps)
  have u: "Unmarshal_encryptedBox ref_crypto (MarshalCBOR_encryptedBox ref_crypto ?box)
             = Some ?box"
    by (rule ref_Unmarshal_encryptedBox) (use l ld in simp_all)
  have o: "open_box ref_crypto ?key ?box = Inr ?data"
    using ref_open_ref_seal [of ?key ?data w0] by (simp add: ref_crypto_def)
  have k: "Unmarshal_KeyHandle ref_crypto ?data = Some ref_keyHandle"
    by (rule ref_Unmarshal_KeyHandle) (simp_all add: ref_keyHandle_lengths)
  show ?thesis by (rule C2_open_seal [OF sk key s u o k])
qed



lemma ref_lengths: "length ref_challenge = 32" "length ref_application = 32"
  by (simp_all add: ref_challenge_def ref_application_def)



text \<open>
  Witness of C4.  Scenario S4 of the spec in the reference environment: challenge \<open>0x42\<close> (32 times), application \<open>0x17\<close> (32 times), the user approves.
\<close>

theorem C4_register_response_witness:
  "handleU2FMessage ref_crypto ref_client (register_apdu (ref_challenge @ ref_application)) w0
   = Inr ([0x05]
            @ ([0x04] @ FillBytes 32 (PublicKey_X ref_key) @ FillBytes 32 (PublicKey_Y ref_key))
            @ [of_nat (length (fst (sealKeyHandle ref_crypto ref_client ref_keyHandle
                                      (w0\<lparr>world_rng := 8\<rparr>))))]
            @ fst (sealKeyHandle ref_crypto ref_client ref_keyHandle (w0\<lparr>world_rng := 8\<rparr>))
            @ [0x30, 0x00]
            @ fst (ref_sign ref_key
                     ([0x00] @ ref_application @ ref_challenge
                        @ fst (sealKeyHandle ref_crypto ref_client ref_keyHandle
                                 (w0\<lparr>world_rng := 8\<rparr>))
                        @ [0x04] @ FillBytes 32 (PublicKey_X ref_key)
                        @ FillBytes 32 (PublicKey_Y ref_key))
                     (w0\<lparr>world_rng := 9\<rparr>))
            @ [0x90, 0x00],
          w0\<lparr>world_rng := 10\<rparr>)
   \<and> length (fst (sealKeyHandle ref_crypto ref_client ref_keyHandle (w0\<lparr>world_rng := 8\<rparr>)))
       < 256
   \<and> unat (of_nat (length (fst (sealKeyHandle ref_crypto ref_client ref_keyHandle
                                   (w0\<lparr>world_rng := 8\<rparr>)))) :: byte)
       = length (fst (sealKeyHandle ref_crypto ref_client ref_keyHandle (w0\<lparr>world_rng := 8\<rparr>)))"
proof -
  let ?h = "\<lparr> Cla = 0, Command = 1, Param1 = 0, Param2 = 0 \<rparr> :: u2fMessageHeader"
  let ?w1 = "w0\<lparr>world_rng := 8\<rparr>"
  let ?w2 = "w0\<lparr>world_rng := 9\<rparr>"
  let ?w5 = "w0\<lparr>world_rng := 10\<rparr>"
  let ?pub = "[0x04] @ FillBytes 32 (PublicKey_X ref_key) @ FillBytes 32 (PublicKey_Y ref_key)"
  let ?enc = "FillBytes 32 (ecdsa_D ref_key) @ FillBytes 32 (PublicKey_X ref_key)
                @ FillBytes 32 (PublicKey_Y ref_key)"
  let ?handle = "fst (sealKeyHandle ref_crypto ref_client ref_keyHandle ?w1)"
  let ?msg = "[0x00] @ ref_application @ ref_challenge @ ?handle @ ?pub"
  have d: "decodeU2FMessage (register_apdu (ref_challenge @ ref_application))
             = Inr (?h, ref_challenge @ ref_application, 0)"
    by (rule decode_register_apdu) (simp_all add: ref_lengths ref_challenge_def)
  have c: "Command ?h = u2f_COMMAND_REGISTER" by (simp add: u2f_COMMAND_REGISTER_def)
  have n: "NewPrivateKey ref_client w0 = (ref_key, ?w1)"
    by (simp add: ref_client_def w0_def)
  have m: "x509_MarshalECPrivateKey ref_crypto ref_key = Some ?enc"
    by (simp add: ref_crypto_def ref_MarshalECPrivateKey_def del: FillBytes.simps)
  have kh: "\<lparr> PrivateKey = Some ?enc, ApplicationID = Some ref_application \<rparr> = ref_keyHandle"
    by (simp add: ref_keyHandle_def ref_MarshalECPrivateKey_def del: FillBytes.simps)
  have sk: "sealKeyHandle ref_crypto ref_client
              \<lparr> PrivateKey = Some ?enc, ApplicationID = Some ref_application \<rparr> ?w1
              = (?handle, ?w2)"
    unfolding kh by (simp add: ref_seal_handle w0_def)
  have ap: "ApproveU2FRegistration ref_client
              \<lparr> PrivateKey = Some ?enc, ApplicationID = Some ref_application \<rparr> ?w2
              = (True, ?w2)"
    by (simp add: ref_client_def w0_def)
  have ce: "CreateAttestationCertificiate ref_client ref_key ?w2 = ([0x30, 0x00], ?w2)"
    by (simp add: ref_client_def)
  have s: "sign ref_crypto ref_key ?msg ?w2 = (fst (ref_sign ref_key ?msg ?w2), ?w5)"
    by (simp add: ref_crypto_def ref_sign_def w0_def del: FillBytes.simps)
  have l: "length ?handle < 256"
    using length_ref_handle [of ref_keyHandle ?w1] by (simp add: ref_keyHandle_lengths)
  from C4_register_response [OF d c refl ref_lengths n ref_key_fits(2,3) refl m sk ap ce s] l
  show ?thesis by simp
qed

lemma nil_keyHandle_lengths:
  "length (bytes_of (PrivateKey nil_keyHandle)) = 0"
  "length (bytes_of (ApplicationID nil_keyHandle)) = 32"
  by (simp_all add: nil_keyHandle_def bytes_of_def ref_application_def)

lemma length_nil_handle_256: "length nil_handle < 256"
  using length_ref_handle [of nil_keyHandle w0]
  by (simp add: nil_handle_def nil_keyHandle_lengths)

text \<open>
  Witness of C10.  The handle of a key handle without private key, for the application of the request, with control byte \<open>0x08\<close>.
\<close>

theorem C10_nil_private_key_witness:
  "handleU2FMessage ref_crypto ref_client
     (authenticate_apdu 0x08 ref_challenge ref_application nil_handle) w0
   = Inr ([0x6A, 0x80], w0)"
proof -
  let ?h = "\<lparr> Cla = 0, Command = 2, Param1 = 0x08, Param2 = 0 \<rparr> :: u2fMessageHeader"
  have d: "decodeU2FMessage (authenticate_apdu 0x08 ref_challenge ref_application nil_handle)
             = Inr (?h, ref_challenge @ ref_application @ [of_nat (length nil_handle)]
                          @ nil_handle, 0)"
    by (rule decode_authenticate_apdu) (simp_all add: ref_lengths length_nil_handle_256)
  have c: "Command ?h = u2f_COMMAND_AUTHENTICATE" by (simp add: u2f_COMMAND_AUTHENTICATE_def)
  have r: "ref_challenge @ ref_application @ [of_nat (length nil_handle)] @ nil_handle
             = ref_challenge @ ref_application @ [of_nat (length nil_handle)] @ nil_handle @ []"
    by simp
  have u: "length nil_handle = unat (of_nat (length nil_handle) :: byte)"
    using length_nil_handle_256 by (simp add: unat_of_nat)
  have o: "openKeyHandle ref_crypto ref_client nil_handle w0 = Inr (Some nil_keyHandle)"
    unfolding nil_handle_def
    by (rule ref_open_sealed_handle) (simp_all add: nil_keyHandle_lengths)
  have p: "PrivateKey nil_keyHandle = None" by (simp add: nil_keyHandle_def)
  show ?thesis by (rule C10_nil_private_key [OF d c r ref_lengths u o p])
qed






subsection \<open>Further checks of the model against the spec\<close>

text \<open>
  Scenarios S1, S2, S3 and S5 of the spec, for every client and library.
\<close>

lemma scenario_S1_version:
  "handleU2FMessage lib client [0x00, 0x03, 0x00, 0x00] w
     = Inr ([0x55, 0x32, 0x46, 0x5F, 0x56, 0x32, 0x90, 0x00], w)"
  by (simp add: handleU2FMessage_def decodeU2FMessage_def ReadBE_u2fMessageHeader_def
        bindP_def u2f_COMMAND_VERSION_def ToBE16_status)

lemma scenario_S2_device_descriptor:
  "getDescriptor c usbDescriptorDevice index
     = Inr [0x12, 0x01, 0x10, 0x01, 0x00, 0x00, 0x00, 0x40,
            0, 0, 0, 0, 1, 0, 1, 2, 3, 1]"
  by (simp add: getDescriptor_def getDeviceDescriptor_def ToLE_usbDeviceDescriptor_def
        ToLE16_def SizeOf_usbDeviceDescriptor_def usbDescriptorDevice_def)

lemma scenario_S3_string_descriptor:
  "getDescriptor c usbDescriptorString 2
     = Inr ([0x1A, 0x03] @ Utf16encode ''Virtual FIDO'')"
  "length (Utf16encode ''Virtual FIDO'') = 24"
  by (simp_all add: getDescriptor_def getStringDescriptor_def bindP_def Concat_def
        ToLE_usbStringDescriptorHeader_def SizeOf_usbStringDescriptorHeader_def
        usbDescriptorDevice_def usbDescriptorConfiguration_def usbDescriptorString_def
        Utf16encode_def)

lemma scenario_S5_register_denied:
  assumes "length request = 64"
      and "NewPrivateKey client w = (privateKey, w1)"
      and "PublicKey_X privateKey < 2 ^ 256" and "PublicKey_Y privateKey < 2 ^ 256"
      and "x509_MarshalECPrivateKey lib privateKey = Some encodedPrivateKey"
      and "sealKeyHandle lib client
             \<lparr> PrivateKey = Some encodedPrivateKey, ApplicationID = Some (drop 32 request) \<rparr> w1
             = (keyHandle, w2)"
      and "ApproveU2FRegistration client
             \<lparr> PrivateKey = Some encodedPrivateKey, ApplicationID = Some (drop 32 request) \<rparr> w2
             = (False, w3)"
  shows "handleU2FRegister lib client header request w = Inr ([0x69, 0x85], w3)"
  using assms
  by (simp add: handleU2FRegister_def Let_def bindP_def elliptic_Marshal_def ToBE16_status)

text \<open>
  A control request to the interface reaches \<open>handleInterfaceRequest\<close>.
\<close>

lemma handleControlMessage_interface:
  assumes "recipient setup = usbRequestRecipientInterface c"
      and "recipient setup \<noteq> usbRequestRecipientDevice c"
  shows "handleControlMessage c setup = handleInterfaceRequest c setup"
  using assms by (simp add: handleControlMessage_def)

text \<open>
  In the reference environment every key handle with a private key of at most 200
  bytes and an application ID of 32 bytes is opened to itself after sealing.
\<close>

lemma ref_open_seal_claim_domain:
  assumes "length privateKey \<le> 200" and "length application = 32"
  shows "openKeyHandle ref_crypto ref_client
           (fst (sealKeyHandle ref_crypto ref_client
                   \<lparr> PrivateKey = Some privateKey, ApplicationID = Some application \<rparr> w)) w2
         = Inr (Some \<lparr> PrivateKey = Some privateKey, ApplicationID = Some application \<rparr>)"
  by (rule ref_open_sealed_handle) (use assms in \<open>simp_all add: bytes_of_def\<close>)

end
